theory Spec2Isabelle
  imports Main "HOL-Library.Log_Nat" "HOL-Library.Sublist" "HOL-Library.Multiset"
    "HOL-Library.Char_ord" "HOL-Library.List_Lexorder"
begin

section \<open>JavaScript numbers\<close>

text \<open>
  Every number of the server (a parsed query parameter, an index, a rating, an average) is
  an ECMAScript Number, that is an IEEE 754 binary64 value. A finite value is kept as the
  rational it denotes; \<open>rnd\<close> is the rounding of a mathematical value to the nearest
  binary64 value, ties to the even significand, overflowing to an infinity. The two zeros
  are not told apart: the program never divides by a negative zero (its divisors are array
  lengths and the literal 2) and prints numbers through \<open>toFixed\<close>, which reads the
  mathematical value.
\<close>

datatype number = NaN | PosInf | NegInf | Fin rat

definition floorlog2 :: "rat \<Rightarrow> int" where
  \<comment> \<open>for \<open>a > 0\<close>, the \<open>e\<close> with \<open>2 powi e \<le> a < 2 powi (e + 1)\<close>\<close>
  "floorlog2 a =
     (let (p, q) = quotient_of a; d = bitlen p - bitlen q
      in if 2 powi d \<le> a then d else d - 1)"

definition roundHalfEven :: "rat \<Rightarrow> int" where
  "roundHalfEven y =
     (let f = \<lfloor>y\<rfloor>; d = y - of_int f
      in if d < 1 / 2 then f else if 1 / 2 < d then f + 1 else if even f then f else f + 1)"

definition rnd :: "rat \<Rightarrow> number" where
  "rnd x =
     (if x = 0 then Fin 0
      else let a = \<bar>x\<bar>;
               e = max (floorlog2 a) (- 1022);
               ulp = 2 powi (e - 52);
               r = of_int (roundHalfEven (a / ulp)) * ulp
           in if 2 powi 1024 \<le> r then (if x < 0 then NegInf else PosInf)
              else Fin (if x < 0 then - r else r))"

fun fadd :: "number \<Rightarrow> number \<Rightarrow> number" where
  "fadd (Fin x) (Fin y) = rnd (x + y)"
| "fadd NaN _ = NaN"
| "fadd _ NaN = NaN"
| "fadd PosInf NegInf = NaN"
| "fadd NegInf PosInf = NaN"
| "fadd PosInf _ = PosInf"
| "fadd NegInf _ = NegInf"
| "fadd _ PosInf = PosInf"
| "fadd _ NegInf = NegInf"

fun fneg :: "number \<Rightarrow> number" where
  "fneg NaN = NaN"
| "fneg PosInf = NegInf"
| "fneg NegInf = PosInf"
| "fneg (Fin x) = Fin (- x)"

definition fsub :: "number \<Rightarrow> number \<Rightarrow> number" where
  "fsub a b = fadd a (fneg b)"

fun fdiv :: "number \<Rightarrow> number \<Rightarrow> number" where
  "fdiv (Fin x) (Fin y) =
     (if y = 0 then (if x = 0 then NaN else if 0 < x then PosInf else NegInf)
      else rnd (x / y))"
| "fdiv NaN _ = NaN"
| "fdiv _ NaN = NaN"
| "fdiv (Fin x) _ = Fin 0"
| "fdiv PosInf (Fin y) = (if y < 0 then NegInf else PosInf)"
| "fdiv NegInf (Fin y) = (if y < 0 then PosInf else NegInf)"
| "fdiv _ _ = NaN"

fun flt :: "number \<Rightarrow> number \<Rightarrow> bool" where
  "flt (Fin x) (Fin y) = (x < y)"
| "flt NaN _ = False"
| "flt _ NaN = False"
| "flt NegInf b = (b \<noteq> NegInf)"
| "flt a PosInf = (a \<noteq> PosInf)"
| "flt _ _ = False"

fun strictEq :: "number \<Rightarrow> number \<Rightarrow> bool" where
  "strictEq NaN _ = False"
| "strictEq _ NaN = False"
| "strictEq a b = (a = b)"

definition ofNat :: "nat \<Rightarrow> number" where
  \<comment> \<open>an array length as a Number: it is below \<open>2^32\<close>, hence exact\<close>
  "ofNat n = Fin (of_int (int n))"

definition ofInt :: "int \<Rightarrow> number" where
  \<comment> \<open>an integer of the data files as \<open>JSON.parse\<close> delivers it\<close>
  "ofInt n = rnd (of_int n)"

section \<open>JavaScript strings\<close>

text \<open>
  A string is the list of its characters. The characters are those of ASCII: case folding
  and white space beyond ASCII are not modelled (a character outside ASCII is left as it is
  and is no white space).
\<close>

definition lowerChar :: "char \<Rightarrow> char" where
  "lowerChar c = (let n = (of_char c :: nat) in if 65 \<le> n \<and> n \<le> 90 then char_of (n + 32) else c)"

definition toLowerCase :: "string \<Rightarrow> string" where
  "toLowerCase s = map lowerChar s"

fun includesStr :: "string \<Rightarrow> string \<Rightarrow> bool" where
  \<comment> \<open>\<open>s.includes(t)\<close>: \<open>t\<close> occurs in \<open>s\<close> as a contiguous run\<close>
  "includesStr [] t = (t = [])"
| "includesStr (c # cs) t = (prefix t (c # cs) \<or> includesStr cs t)"

definition isWhiteSpace :: "char \<Rightarrow> bool" where
  "isWhiteSpace c = ((of_char c :: nat) \<in> {9, 10, 11, 12, 13, 32})"

definition trimStart :: "string \<Rightarrow> string" where
  "trimStart s = dropWhile isWhiteSpace s"

definition trim :: "string \<Rightarrow> string" where
  "trim s = rev (dropWhile isWhiteSpace (rev (dropWhile isWhiteSpace s)))"

fun split :: "char \<Rightarrow> string \<Rightarrow> string list" where
  \<comment> \<open>\<open>s.split(',')\<close>: the pieces between the separators, one more than there are separators\<close>
  "split sep [] = [[]]"
| "split sep (c # cs) =
     (if c = sep then [] # split sep cs
      else (case split sep cs of p # ps \<Rightarrow> (c # p) # ps | [] \<Rightarrow> [[c]]))"

definition truthy :: "string option \<Rightarrow> bool" where
  \<comment> \<open>a query parameter in a condition: absent and empty are false\<close>
  "truthy v = (case v of None \<Rightarrow> False | Some s \<Rightarrow> s \<noteq> [])"

subsection \<open>parseInt and parseFloat\<close>

definition isDigit :: "char \<Rightarrow> bool" where
  "isDigit c = (let n = (of_char c :: nat) in 48 \<le> n \<and> n \<le> 57)"

definition digitVal :: "char \<Rightarrow> int" where
  "digitVal c = of_char c - 48"

definition isHexDigit :: "char \<Rightarrow> bool" where
  "isHexDigit c =
     (let n = (of_char c :: nat)
      in (48 \<le> n \<and> n \<le> 57) \<or> (65 \<le> n \<and> n \<le> 70) \<or> (97 \<le> n \<and> n \<le> 102))"

definition hexVal :: "char \<Rightarrow> int" where
  "hexVal c =
     (let n = (of_char c :: int)
      in if n \<le> 57 then n - 48 else if n \<le> 70 then n - 55 else n - 87)"

definition digitsValue :: "int \<Rightarrow> (char \<Rightarrow> int) \<Rightarrow> string \<Rightarrow> int" where
  "digitsValue radix val ds = foldl (\<lambda>acc c. acc * radix + val c) 0 ds"

definition parseInt :: "string \<Rightarrow> number" where
  \<comment> \<open>\<open>parseInt(s)\<close> with no radix: leading white space, a sign, \<open>0x\<close> for radix 16, then
      the longest run of digits; \<open>NaN\<close> when that run is empty\<close>
  "parseInt s =
     (let s1 = trimStart s;
          neg = (s1 \<noteq> [] \<and> hd s1 = CHR ''-'');
          s2 = (if s1 \<noteq> [] \<and> (hd s1 = CHR ''+'' \<or> hd s1 = CHR ''-'') then tl s1 else s1);
          hex = (prefix ''0x'' s2 \<or> prefix ''0X'' s2);
          z = (if hex then takeWhile isHexDigit (drop 2 s2) else takeWhile isDigit s2);
          mathInt = (if hex then digitsValue 16 hexVal z else digitsValue 10 digitVal z)
      in if z = [] then NaN
         else rnd (of_int (if neg then - mathInt else mathInt)))"

definition exponentPart :: "string \<Rightarrow> int" where
  \<comment> \<open>the value of an exponent part at the head of the string, 0 when there is none\<close>
  "exponentPart s =
     (if s \<noteq> [] \<and> (hd s = CHR ''e'' \<or> hd s = CHR ''E'') then
        (let t = tl s;
             neg = (t \<noteq> [] \<and> hd t = CHR ''-'');
             u = (if t \<noteq> [] \<and> (hd t = CHR ''+'' \<or> hd t = CHR ''-'') then tl t else t);
             ds = takeWhile isDigit u;
             n = digitsValue 10 digitVal ds
         in if ds = [] then 0 else if neg then - n else n)
      else 0)"

definition parseFloatText :: "string \<Rightarrow> number" where
  \<comment> \<open>\<open>parseFloat\<close> of a string: the longest prefix that is a decimal literal\<close>
  "parseFloatText s =
     (let s1 = trimStart s;
          neg = (s1 \<noteq> [] \<and> hd s1 = CHR ''-'');
          s2 = (if s1 \<noteq> [] \<and> (hd s1 = CHR ''+'' \<or> hd s1 = CHR ''-'') then tl s1 else s1)
      in if prefix ''Infinity'' s2 then (if neg then NegInf else PosInf)
         else
           (let ip = takeWhile isDigit s2;
                r1 = dropWhile isDigit s2;
                dot = (r1 \<noteq> [] \<and> hd r1 = CHR ''.'');
                fp = (if dot then takeWhile isDigit (tl r1) else []);
                r2 = (if dot then dropWhile isDigit (tl r1) else r1);
                m = of_int (digitsValue 10 digitVal (ip @ fp))
                      * 10 powi (exponentPart r2 - int (length fp))
            in if ip = [] \<and> fp = [] then NaN
               else rnd (if neg then - m else m)))"

subsection \<open>toFixed(1)\<close>

function decimalDigits :: "nat \<Rightarrow> string" where
  "decimalDigits n =
     (if n < 10 then [char_of (48 + n)] else decimalDigits (n div 10) @ [char_of (48 + n mod 10)])"
  by pat_completeness auto
termination
  by (relation "measure id") auto

datatype numberText = Text string | ToStringOf number

definition toFixed1 :: "number \<Rightarrow> numberText" where
  \<comment> \<open>\<open>x.toFixed(1)\<close>: the integer \<open>n\<close> with \<open>n / 10\<close> closest to \<open>x\<close>, the larger of two; from
      \<open>10^21\<close> on the result is \<open>ToString(x)\<close>, which is kept as it is\<close>
  "toFixed1 x =
     (case x of
        NaN \<Rightarrow> Text ''NaN''
      | PosInf \<Rightarrow> Text ''Infinity''
      | NegInf \<Rightarrow> Text ''-Infinity''
      | Fin r \<Rightarrow>
          (let a = \<bar>r\<bar>
           in if 10 ^ 21 \<le> a then ToStringOf x
              else
                (let n = nat \<lfloor>a * 10 + 1 / 2\<rfloor>;
                     m = decimalDigits n;
                     m2 = (if length m \<le> 1 then CHR ''0'' # m else m)
                 in Text ((if r < 0 then ''-'' else []) @ butlast m2 @ ''.'' @ [last m2]))))"

section \<open>JavaScript arrays\<close>

definition toIntegerOrInfinity :: "number \<Rightarrow> int option option" where
  \<comment> \<open>\<open>None\<close> is minus infinity, \<open>Some None\<close> plus infinity\<close>
  "toIntegerOrInfinity x =
     (case x of
        NaN \<Rightarrow> Some (Some 0)
      | PosInf \<Rightarrow> Some None
      | NegInf \<Rightarrow> None
      | Fin r \<Rightarrow> Some (Some (if 0 \<le> r then \<lfloor>r\<rfloor> else \<lceil>r\<rceil>)))"

definition relativeIndex :: "nat \<Rightarrow> number \<Rightarrow> nat" where
  \<comment> \<open>an argument of \<open>slice\<close> as a position: counted from the end when negative, clamped\<close>
  "relativeIndex len x =
     (case toIntegerOrInfinity x of
        None \<Rightarrow> 0
      | Some None \<Rightarrow> len
      | Some (Some i) \<Rightarrow> if i < 0 then nat (max (int len + i) 0) else nat (min i (int len)))"

definition slice :: "'a list \<Rightarrow> number \<Rightarrow> number \<Rightarrow> 'a list" where
  "slice xs start end' =
     (let k = relativeIndex (length xs) start;
          final = relativeIndex (length xs) end'
      in take (final - k) (drop k xs))"

fun insertBy :: "('a \<Rightarrow> 'a \<Rightarrow> number) \<Rightarrow> 'a \<Rightarrow> 'a list \<Rightarrow> 'a list" where
  "insertBy cmp x [] = [x]"
| "insertBy cmp x (y # ys) =
     (if flt (Fin 0) (cmp x y) then y # insertBy cmp x ys else x # y # ys)"

definition sortBy :: "('a \<Rightarrow> 'a \<Rightarrow> number) \<Rightarrow> 'a list \<Rightarrow> 'a list" where
  \<comment> \<open>\<open>xs.sort(cmp)\<close>: the stable sort ECMAScript asks for. \<open>x\<close> goes after \<open>y\<close> only when
      \<open>cmp(x, y) > 0\<close>; a comparator that answers \<open>NaN\<close> is read as 0. For a comparator that
      is no consistent ordering the language leaves the order to the engine; this is one
      such order.\<close>
  "sortBy cmp xs = foldr (insertBy cmp) xs []"

fun dedupe :: "'a list \<Rightarrow> 'a list" where
  \<comment> \<open>\<open>[...new Set(xs)]\<close>: the first occurrence of each element, in order\<close>
  "dedupe [] = []"
| "dedupe (x # xs) = x # dedupe (removeAll x xs)"

section \<open>Data model\<close>

text \<open>
  The two data files hold arrays of records. A record is typed as the handlers read it:
  \<open>name\<close>, \<open>description\<close> and \<open>genre\<close> are strings the handlers use without a test, while
  \<open>rating\<close>, \<open>sources\<close> and \<open>episodes\<close> are tested for presence before use in at least one
  place, so they are optional. A \<open>sources\<close> object is the list of its properties in the
  order of \<open>Object.keys\<close>, with distinct keys. A rating is a JSON number (its literal's value)
  or a JSON string.
\<close>

datatype ratingValue = RNum rat | RStr string

type_synonym sourceMap = "(string \<times> string) list"

record Episode =
  season :: int
  episode :: int
  title :: string
  sources :: "sourceMap option"

record Title =
  name :: string
  description :: string
  genre :: string
  rating :: "ratingValue option"
  releaseDate :: string
  image :: string
  sources :: "sourceMap option"
  episodes :: "Episode list option"

text \<open>\<open>{ ...movie, type: 'movie' }\<close>: the record with one more field.\<close>

record Item = Title +
  type :: string

definition withType :: "Title \<Rightarrow> string \<Rightarrow> Item" where
  "withType t ty = Title.extend t (Item.fields ty)"

section \<open>Content store\<close>

text \<open>
  The state of the disk at a request: for each file name, whether reading it fails, whether
  its text fails to parse, or the array it parses to. A handler returns its response
  together with the names of the files it read, in order.
\<close>

datatype dataFile = Unreadable | Malformed | Parsed "Title list"

type_synonym store = "string \<Rightarrow> dataFile"

definition readJSONFile :: "store \<Rightarrow> string \<Rightarrow> Title list" where
  \<comment> \<open>both \<open>fs.readFile\<close> and \<open>JSON.parse\<close> sit in one \<open>try\<close>; the \<open>catch\<close> returns \<open>[]\<close>\<close>
  "readJSONFile fs filename =
     (case fs filename of
        Parsed records \<Rightarrow> records
      | Unreadable \<Rightarrow> []
      | Malformed \<Rightarrow> [])"

section \<open>Responses\<close>

datatype exn = TypeError

record 'a Page =
  data :: "'a list"
  total :: nat
  limit :: number
  offset :: number
  hasMore :: bool

record SeriesInfo =
  name :: string
  description :: string
  genre :: string
  rating :: "ratingValue option"
  releaseDate :: string
  image :: string

record IframeData =
  title :: string
  type :: string
  season :: "int option"
  episode :: "int option"
  episodeTitle :: "string option"
  iframe :: "string option"
  availableSources :: "string list"

record StatsData =
  totalMovies :: nat
  totalSeries :: nat
  totalEpisodes :: nat
  totalGenres :: nat
  genres :: "string list"
  averageMovieRating :: numberText
  averageSeriesRating :: numberText

datatype body =
    Failure string "exn option"
  | TitlePage "Title Page"
  | SearchPage "Item Page" string
  | OneTitle Title
  | EpisodeList "Episode list" SeriesInfo
  | Iframe IframeData
  | Trending "Item list"
  | Stats StatsData
  | Genres "string list"
  | Health string string string

record response =
  status :: nat
  success :: bool
  body :: body

text \<open>
  \<open>req.query\<close>: each parameter is a string or absent (a repeated parameter, which the query
  parser turns into an array, is outside this type).
\<close>

type_synonym query = "string \<Rightarrow> string option"

definition ok :: "body \<Rightarrow> response" where
  \<comment> \<open>\<open>res.json({ success: true, ... })\<close>\<close>
  "ok b = \<lparr>status = 200, success = True, body = b\<rparr>"

definition failed :: "nat \<Rightarrow> string \<Rightarrow> exn option \<Rightarrow> response" where
  \<comment> \<open>\<open>res.status(code).json({ success: false, error, message })\<close>\<close>
  "failed code err msg = \<lparr>status = code, success = False, body = Failure err msg\<rparr>"

section \<open>Query engine\<close>

text \<open>
  The list handlers repeat the same three blocks (search filter, genre filter, pagination)
  on their own array; each block is written once here, over any record that extends a
  title.
\<close>

definition matchesSearch :: "string \<Rightarrow> 'a Title_scheme \<Rightarrow> bool" where
  "matchesSearch searchTerm movie =
     (includesStr (toLowerCase (Title.name movie)) searchTerm \<or>
      includesStr (toLowerCase (Title.description movie)) searchTerm \<or>
      includesStr (toLowerCase (Title.genre movie)) searchTerm)"

definition matchesGenre :: "string \<Rightarrow> 'a Title_scheme \<Rightarrow> bool" where
  "matchesGenre genre' movie = includesStr (toLowerCase (Title.genre movie)) (toLowerCase genre')"

definition searchFilter :: "string option \<Rightarrow> 'a Title_scheme list \<Rightarrow> 'a Title_scheme list" where
  \<comment> \<open>\<open>if (search) { movies = movies.filter(...) }\<close>\<close>
  "searchFilter search movies =
     (case search of
        None \<Rightarrow> movies
      | Some s \<Rightarrow> if s = [] then movies else filter (matchesSearch (toLowerCase s)) movies)"

definition genreFilter :: "string option \<Rightarrow> 'a Title_scheme list \<Rightarrow> 'a Title_scheme list" where
  \<comment> \<open>\<open>if (genre && genre !== 'all') { movies = movies.filter(...) }\<close>\<close>
  "genreFilter genre' movies =
     (case genre' of
        None \<Rightarrow> movies
      | Some g \<Rightarrow> if g = [] \<or> g = ''all'' then movies else filter (matchesGenre g) movies)"

definition queryNumber :: "string option \<Rightarrow> rat \<Rightarrow> number" where
  \<comment> \<open>\<open>parseInt(limit)\<close> for \<open>const { limit = 20 } = req.query\<close>: the default is the number\<close>
  "queryNumber v dflt = (case v of None \<Rightarrow> Fin dflt | Some s \<Rightarrow> parseInt s)"

definition paginate :: "string option \<Rightarrow> string option \<Rightarrow> 'a list \<Rightarrow> 'a Page" where
  "paginate limit' offset' movies =
     (let startIndex = queryNumber offset' 0;
          endIndex = fadd startIndex (queryNumber limit' 20)
      in \<lparr>data = slice movies startIndex endIndex,
          total = length movies,
          limit = queryNumber limit' 20,
          offset = queryNumber offset' 0,
          hasMore = flt endIndex (ofNat (length movies))\<rparr>)"

definition api_movies :: "store \<Rightarrow> query \<Rightarrow> response \<times> string list" where
  "api_movies fs q =
     (let movies = readJSONFile fs ''movies.json'';
          movies = searchFilter (q ''search'') movies;
          movies = genreFilter (q ''genre'') movies
      in (ok (TitlePage (paginate (q ''limit'') (q ''offset'') movies)), [''movies.json'']))"

definition api_series :: "store \<Rightarrow> query \<Rightarrow> response \<times> string list" where
  "api_series fs q =
     (let series = readJSONFile fs ''series.json'';
          series = searchFilter (q ''search'') series;
          series = genreFilter (q ''genre'') series
      in (ok (TitlePage (paginate (q ''limit'') (q ''offset'') series)), [''series.json'']))"

definition sameName :: "string \<Rightarrow> 'a Title_scheme \<Rightarrow> bool" where
  \<comment> \<open>\<open>m.name.toLowerCase() === title.toLowerCase()\<close>\<close>
  "sameName n m = (toLowerCase (Title.name m) = toLowerCase n)"

definition api_movies_name :: "store \<Rightarrow> string \<Rightarrow> response \<times> string list" where
  "api_movies_name fs nm =
     (let movies = readJSONFile fs ''movies.json''
      in (case find (sameName nm) movies of
            None \<Rightarrow> failed 404 ''Movie not found'' None
          | Some movie \<Rightarrow> ok (OneTitle movie),
          [''movies.json'']))"

definition api_series_name :: "store \<Rightarrow> string \<Rightarrow> response \<times> string list" where
  "api_series_name fs nm =
     (let series = readJSONFile fs ''series.json''
      in (case find (sameName nm) series of
            None \<Rightarrow> failed 404 ''Series not found'' None
          | Some show \<Rightarrow> ok (OneTitle show),
          [''series.json'']))"

definition seriesInfo :: "Title \<Rightarrow> SeriesInfo" where
  "seriesInfo show =
     \<lparr>SeriesInfo.name = Title.name show, description = Title.description show,
      genre = Title.genre show, rating = Title.rating show,
      releaseDate = Title.releaseDate show, image = Title.image show\<rparr>"

definition api_series_name_episodes :: "store \<Rightarrow> string \<Rightarrow> query \<Rightarrow> response \<times> string list" where
  "api_series_name_episodes fs nm q =
     (let series = readJSONFile fs ''series.json''
      in (case find (sameName nm) series of
            None \<Rightarrow> failed 404 ''Series not found'' None
          | Some show \<Rightarrow>
              (let eps = (case Title.episodes show of None \<Rightarrow> [] | Some es \<Rightarrow> es);
                   eps = (case q ''season'' of
                            None \<Rightarrow> eps
                          | Some s \<Rightarrow>
                              if s = [] then eps
                              else filter (\<lambda>ep. strictEq (ofInt (Episode.season ep)) (parseInt s)) eps);
                   eps = (case q ''episode'' of
                            None \<Rightarrow> eps
                          | Some e \<Rightarrow>
                              if e = [] then eps
                              else filter (\<lambda>ep. strictEq (ofInt (Episode.episode ep)) (parseInt e)) eps)
               in ok (EpisodeList eps (seriesInfo show))),
          [''series.json'']))"

definition wantsType :: "string option \<Rightarrow> string \<Rightarrow> bool" where
  \<comment> \<open>\<open>!type || type === 'movie' || type === 'all'\<close>\<close>
  "wantsType ty kind = (case ty of None \<Rightarrow> True | Some t \<Rightarrow> t = [] \<or> t = kind \<or> t = ''all'')"

definition searchResults :: "store \<Rightarrow> query \<Rightarrow> string \<Rightarrow> Item list \<times> string list" where
  \<comment> \<open>the array \<open>results\<close> of the universal search before pagination\<close>
  "searchResults fs q qs =
     (let searchTerm = toLowerCase qs;
          (results, reads) =
            (if wantsType (q ''type'') ''movie''
             then (map (\<lambda>movie. withType movie ''movie'')
                     (filter (matchesSearch searchTerm) (readJSONFile fs ''movies.json'')),
                   [''movies.json''])
             else ([], []));
          (results, reads) =
            (if wantsType (q ''type'') ''series''
             then (results @ map (\<lambda>show. withType show ''series'')
                     (filter (matchesSearch searchTerm) (readJSONFile fs ''series.json'')),
                   reads @ [''series.json''])
             else (results, reads))
      in (genreFilter (q ''genre'') results, reads))"

definition api_search :: "store \<Rightarrow> query \<Rightarrow> response \<times> string list" where
  "api_search fs q =
     (case q ''q'' of
        None \<Rightarrow> (failed 400 ''Search query is required'' None, [])
      | Some qs \<Rightarrow>
          if qs = [] then (failed 400 ''Search query is required'' None, [])
          else
            (let (results, reads) = searchResults fs q qs
             in (ok (SearchPage (paginate (q ''limit'') (q ''offset'') results) qs), reads)))"

section \<open>Resolver\<close>

definition sourceKey :: "string \<Rightarrow> string" where
  "sourceKey source =
     (if source = ''primary'' then ''source1''
      else if source = ''secondary'' then ''source2''
      else if source = ''tertiary'' then ''source3''
      else ''source1'')"

definition pickSource :: "sourceMap \<Rightarrow> string \<Rightarrow> string option" where
  \<comment> \<open>\<open>sources[sourceKey] || sources.source1\<close>: an absent or empty slot gives way\<close>
  "pickSource srcs key =
     (case map_of srcs key of
        None \<Rightarrow> map_of srcs ''source1''
      | Some url \<Rightarrow> if url = [] then map_of srcs ''source1'' else Some url)"

definition movieIframe :: "Title \<Rightarrow> sourceMap \<Rightarrow> string \<Rightarrow> response" where
  "movieIframe movie srcs source =
     ok (Iframe \<lparr>IframeData.title = Title.name movie, type = ''movie'',
                 season = None, episode = None, episodeTitle = None,
                 iframe = pickSource srcs (sourceKey source),
                 availableSources = map fst srcs\<rparr>)"

definition episodeIframe :: "Title \<Rightarrow> Episode \<Rightarrow> sourceMap \<Rightarrow> string \<Rightarrow> response" where
  "episodeIframe show ep srcs source =
     ok (Iframe \<lparr>IframeData.title = Title.name show, type = ''series'',
                 season = Some (Episode.season ep), episode = Some (Episode.episode ep),
                 episodeTitle = Some (Episode.title ep),
                 iframe = pickSource srcs (sourceKey source),
                 availableSources = map fst srcs\<rparr>)"

definition firstEpisode :: "Title \<Rightarrow> string \<Rightarrow> response" where
  \<comment> \<open>the last block of the series branch; \<open>firstEp.sources[sourceKey]\<close> is read with no
      test of \<open>firstEp.sources\<close>, and the \<open>TypeError\<close> is caught by the handler\<close>
  "firstEpisode show source =
     (case Title.episodes show of
        None \<Rightarrow> failed 404 ''Content not found'' None
      | Some [] \<Rightarrow> failed 404 ''Content not found'' None
      | Some (firstEp # _) \<Rightarrow>
          (case Episode.sources firstEp of
             None \<Rightarrow> failed 500 ''Failed to get iframe source'' (Some TypeError)
           | Some srcs \<Rightarrow> episodeIframe show firstEp srcs source))"

definition findEpisode :: "Title \<Rightarrow> string option \<Rightarrow> string option \<Rightarrow> Episode option" where
  \<comment> \<open>\<open>if (season && episode) { const ep = show.episodes?.find(...) ... }\<close>\<close>
  "findEpisode show season' episode' =
     (case (season', episode') of
        (Some s, Some e) \<Rightarrow>
          if s = [] \<or> e = [] then None
          else
            (case Title.episodes show of
               None \<Rightarrow> None
             | Some eps \<Rightarrow>
                 find (\<lambda>ep. strictEq (ofInt (Episode.season ep)) (parseInt s) \<and>
                             strictEq (ofInt (Episode.episode ep)) (parseInt e)) eps)
      | _ \<Rightarrow> None)"

definition seriesIframe :: "Title \<Rightarrow> string option \<Rightarrow> string option \<Rightarrow> string \<Rightarrow> response" where
  "seriesIframe show season' episode' source =
     (case findEpisode show season' episode' of
        None \<Rightarrow> firstEpisode show source
      | Some ep \<Rightarrow>
          (case Episode.sources ep of
             None \<Rightarrow> firstEpisode show source
           | Some srcs \<Rightarrow> episodeIframe show ep srcs source))"

definition movieWithSources :: "Title list \<Rightarrow> string \<Rightarrow> (Title \<times> sourceMap) option" where
  \<comment> \<open>\<open>const movie = movies.find(...); if (movie && movie.sources)\<close>\<close>
  "movieWithSources movies title' =
     (case find (sameName title') movies of
        None \<Rightarrow> None
      | Some movie \<Rightarrow>
          (case Title.sources movie of None \<Rightarrow> None | Some srcs \<Rightarrow> Some (movie, srcs)))"

definition api_iframe :: "store \<Rightarrow> query \<Rightarrow> response \<times> string list" where
  "api_iframe fs q =
     (case q ''title'' of
        None \<Rightarrow> (failed 400 ''Title is required'' None, [])
      | Some title' \<Rightarrow>
          if title' = [] then (failed 400 ''Title is required'' None, [])
          else
            (let source = (case q ''source'' of None \<Rightarrow> ''primary'' | Some s \<Rightarrow> s);
                 movies = readJSONFile fs ''movies.json''
             in case movieWithSources movies title' of
                  Some (movie, srcs) \<Rightarrow> (movieIframe movie srcs source, [''movies.json''])
                | None \<Rightarrow>
                    (let series = readJSONFile fs ''series.json''
                     in (case find (sameName title') series of
                           None \<Rightarrow> failed 404 ''Content not found'' None
                         | Some show \<Rightarrow> seriesIframe show (q ''season'') (q ''episode'') source,
                         [''movies.json'', ''series.json'']))))"

section \<open>Trending\<close>

definition ratingNumber :: "ratingValue option \<Rightarrow> number" where
  \<comment> \<open>\<open>parseFloat(a.rating)\<close>: a number is printed and read back, which gives the number
      again; an absent rating is the text \<open>undefined\<close>, which is no number\<close>
  "ratingNumber r =
     (case r of
        None \<Rightarrow> NaN
      | Some (RNum x) \<Rightarrow> rnd x
      | Some (RStr s) \<Rightarrow> parseFloatText s)"

definition byRating :: "'a Title_scheme \<Rightarrow> 'a Title_scheme \<Rightarrow> number" where
  \<comment> \<open>\<open>(a, b) => parseFloat(b.rating) - parseFloat(a.rating)\<close>\<close>
  "byRating a b = fsub (ratingNumber (Title.rating b)) (ratingNumber (Title.rating a))"

definition topRated :: "Title list \<Rightarrow> number \<Rightarrow> string \<Rightarrow> Item list" where
  \<comment> \<open>\<open>movies.sort(...).slice(0, parseInt(limit) / 2).map(movie => ({ ...movie, type }))\<close>\<close>
  "topRated movies limit' kind =
     map (\<lambda>movie. withType movie kind) (slice (sortBy byRating movies) (Fin 0) (fdiv limit' (Fin 2)))"

definition wantsTrending :: "string option \<Rightarrow> string \<Rightarrow> bool" where
  \<comment> \<open>\<open>!type || type === 'all' || type === 'movie'\<close>\<close>
  "wantsTrending ty kind = (case ty of None \<Rightarrow> True | Some t \<Rightarrow> t = [] \<or> t = ''all'' \<or> t = kind)"

definition trendingPool :: "store \<Rightarrow> query \<Rightarrow> Item list \<times> string list" where
  \<comment> \<open>the array \<open>trending\<close> before it is shuffled\<close>
  "trendingPool fs q =
     (let limit' = queryNumber (q ''limit'') 20;
          (trending, reads) =
            (if wantsTrending (q ''type'') ''movie''
             then (topRated (readJSONFile fs ''movies.json'') limit' ''movie'', [''movies.json''])
             else ([], []))
      in if wantsTrending (q ''type'') ''series''
         then (trending @ topRated (readJSONFile fs ''series.json'') limit' ''series'',
               reads @ [''series.json''])
         else (trending, reads))"

definition api_trending :: "(Item list \<Rightarrow> Item list) \<Rightarrow> store \<Rightarrow> query \<Rightarrow> response \<times> string list" where
  \<comment> \<open>\<open>shuffle\<close> is what \<open>.sort(() => Math.random() - 0.5)\<close> does to the array at this request\<close>
  "api_trending shuffle fs q =
     (let (trending, reads) = trendingPool fs q
      in (ok (Trending (slice (shuffle trending) (Fin 0) (queryNumber (q ''limit'') 20))), reads))"

text \<open>
  The specification's words for the pool: the \<open>n\<close> highest-rated records are the first \<open>n\<close> of the
  collection sorted by numeric rating, highest first, records of equal rating in file order.
  This order is defined where every rating is a finite number.
\<close>

definition finiteRating :: "'a Title_scheme \<Rightarrow> bool" where
  "finiteRating t = (case ratingNumber (Title.rating t) of Fin r \<Rightarrow> True | _ \<Rightarrow> False)"

definition numericRating :: "'a Title_scheme \<Rightarrow> rat" where
  "numericRating t = (case ratingNumber (Title.rating t) of Fin r \<Rightarrow> r | _ \<Rightarrow> 0)"

definition highestRated :: "nat \<Rightarrow> 'a Title_scheme list \<Rightarrow> 'a Title_scheme list" where
  "highestRated n xs = take n (sort_key (\<lambda>t. - numericRating t) xs)"

section \<open>Aggregator\<close>

definition ratingOrZero :: "ratingValue option \<Rightarrow> number" where
  \<comment> \<open>\<open>parseFloat(m.rating || 0)\<close>: an absent rating, an empty string and the number 0 are
      false and replaced by 0\<close>
  "ratingOrZero r =
     (case r of
        None \<Rightarrow> Fin 0
      | Some (RNum x) \<Rightarrow> rnd x
      | Some (RStr s) \<Rightarrow> if s = [] then Fin 0 else parseFloatText s)"

definition averageRating :: "Title list \<Rightarrow> numberText" where
  \<comment> \<open>\<open>(movies.reduce((sum, m) => sum + parseFloat(m.rating || 0), 0) / movies.length).toFixed(1)\<close>\<close>
  "averageRating movies =
     toFixed1 (fdiv (foldl (\<lambda>sum m. fadd sum (ratingOrZero (Title.rating m))) (Fin 0) movies)
                    (ofNat (length movies)))"

definition genreTags :: "Title list \<Rightarrow> string list" where
  \<comment> \<open>\<open>movies.flatMap(m => m.genre.split(',').map(g => g.trim()))\<close>\<close>
  "genreTags movies = concat (map (\<lambda>m. map trim (split CHR '','' (Title.genre m))) movies)"

definition countEpisodes :: "Title list \<Rightarrow> nat" where
  \<comment> \<open>\<open>series.reduce((total, show) => total + (show.episodes ? show.episodes.length : 0), 0)\<close>\<close>
  "countEpisodes series =
     foldl (\<lambda>total show. total + (case Title.episodes show of None \<Rightarrow> 0 | Some eps \<Rightarrow> length eps))
       0 series"

definition api_stats :: "store \<Rightarrow> response \<times> string list" where
  "api_stats fs =
     (let movies = readJSONFile fs ''movies.json'';
          series = readJSONFile fs ''series.json'';
          allGenres = dedupe (genreTags movies @ genreTags series)
      in (ok (Stats \<lparr>totalMovies = length movies,
                     totalSeries = length series,
                     totalEpisodes = countEpisodes series,
                     totalGenres = length allGenres,
                     genres = allGenres,
                     averageMovieRating = averageRating movies,
                     averageSeriesRating = averageRating series\<rparr>),
          [''movies.json'', ''series.json'']))"

definition api_genres :: "store \<Rightarrow> response \<times> string list" where
  "api_genres fs =
     (let movies = readJSONFile fs ''movies.json'';
          series = readJSONFile fs ''series.json''
      in (ok (Genres (sort (dedupe (genreTags movies @ genreTags series)))),
          [''movies.json'', ''series.json'']))"

definition api_health :: "string \<Rightarrow> response \<times> string list" where
  \<comment> \<open>\<open>now\<close> is \<open>new Date().toISOString()\<close> at the request\<close>
  "api_health now = (ok (Health ''ViewMax API is running'' now ''1.0.0''), [])"

section \<open>Sample data\<close>

text \<open>Small stores and requests on which the theorems below are exercised.\<close>

definition plainTitle :: "string \<Rightarrow> string \<Rightarrow> ratingValue option \<Rightarrow> Title" where
  "plainTitle n g r =
     \<lparr>Title.name = n, description = ''A film'', genre = g, rating = r,
      releaseDate = ''2020'', image = ''poster.jpg'', sources = None, episodes = None\<rparr>"

definition plainEpisode :: "int \<Rightarrow> int \<Rightarrow> string \<Rightarrow> sourceMap option \<Rightarrow> Episode" where
  "plainEpisode s e t srcs = \<lparr>Episode.season = s, episode = e, title = t, sources = srcs\<rparr>"

definition sampleMovies :: "Title list" where
  "sampleMovies =
     [(plainTitle ''Alien'' ''Horror, Sci-Fi'' (Some (RStr ''8.5'')))
        \<lparr>Title.sources := Some [(''source1'', ''https://a/1''), (''source2'', ''https://a/2'')]\<rparr>,
      plainTitle ''Heat'' ''Crime'' (Some (RNum 9)),
      (plainTitle ''Up'' ''Animation'' (Some (RStr ''7.5'')))
        \<lparr>Title.sources := Some [(''source1'', ''https://u/1'')]\<rparr>]"

definition sampleSeries :: "Title list" where
  "sampleSeries =
     [(plainTitle ''Heat'' ''Crime, Drama'' (Some (RStr ''7'')))
        \<lparr>episodes := Some
           [plainEpisode 1 1 ''Pilot'' (Some [(''source1'', ''https://h/1'')]),
            plainEpisode 1 2 ''Second'' (Some [(''source1'', ''https://h/2''), (''source3'', ''https://h/23'')])]\<rparr>,
      (plainTitle ''Lost'' ''Mystery'' (Some (RStr ''8'')))
        \<lparr>episodes := Some
           [plainEpisode 1 1 ''Pilot'' (Some [(''source2'', ''https://l/2'')]),
            plainEpisode 1 2 ''Tabula Rasa'' (Some [(''source1'', ''https://l/1'')])]\<rparr>,
      (plainTitle ''Dark'' ''Mystery, Sci-Fi'' (Some (RNum (17 / 2))))
        \<lparr>episodes := Some
           [plainEpisode 1 1 ''Secrets'' None,
            plainEpisode 1 2 ''Lies'' (Some [(''source1'', ''https://d/1'')])]\<rparr>]"

definition sampleStore :: store where
  "sampleStore filename =
     (if filename = ''movies.json'' then Parsed sampleMovies
      else if filename = ''series.json'' then Parsed sampleSeries
      else Unreadable)"

definition brokenStore :: store where
  \<comment> \<open>the movie file is missing, the series file is there\<close>
  "brokenStore filename =
     (if filename = ''series.json'' then Parsed sampleSeries else Unreadable)"

definition noQuery :: query where
  "noQuery = Map.empty"

definition pageQuery :: query where
  "pageQuery = [''limit'' \<mapsto> ''2'', ''offset'' \<mapsto> ''1'', ''q'' \<mapsto> ''film'']"

definition heatQuery :: query where
  \<comment> \<open>\<open>Heat\<close> is a movie without sources and also a series\<close>
  "heatQuery = [''title'' \<mapsto> ''heat'']"

definition alienQuery :: query where
  "alienQuery = [''title'' \<mapsto> ''ALIEN'', ''source'' \<mapsto> ''secondary'']"

definition lostQuery :: query where
  \<comment> \<open>no episode 9 of season 9 is stored\<close>
  "lostQuery = [''title'' \<mapsto> ''lost'', ''season'' \<mapsto> ''9'', ''episode'' \<mapsto> ''9'']"

definition darkQuery :: query where
  "darkQuery = [''title'' \<mapsto> ''dark'']"

definition limitTwoQuery :: query where
  "limitTwoQuery = [''limit'' \<mapsto> ''2'']"

definition minusTwoQuery :: query where
  "minusTwoQuery = [''limit'' \<mapsto> ''-2'']"


definition heatEpisodeQuery :: query where
  "heatEpisodeQuery =
     [''title'' \<mapsto> ''heat'', ''season'' \<mapsto> ''9'', ''episode'' \<mapsto> ''9'',
      ''source'' \<mapsto> ''tertiary'']"


section \<open>Auxiliary facts\<close>

subsection \<open>Numbers that need no rounding\<close>

lemma floorlog2_lower:
  assumes "0 < a"
  shows "2 powi (floorlog2 a) \<le> a"
proof -
  obtain p q where pq: "quotient_of a = (p, q)" by (cases "quotient_of a")
  have q: "0 < q" using pq quotient_of_denom_pos by blast
  have a: "a = of_int p / of_int q" using pq quotient_of_div by blast
  have p: "0 < p" using assms a q by (simp add: zero_less_divide_iff)
  define d where "d = bitlen p - bitlen q"
  have bp: "(2::int) ^ nat (bitlen p - 1) \<le> p" using bitlen_bounds[OF p] by simp
  have bq: "q < (2::int) ^ nat (bitlen q)" using bitlen_bounds[OF q] by simp
  have bp1: "1 \<le> bitlen p" using p bitlen_eq_zero_iff[of p] bitlen_nonneg[of p] by linarith
  have bq0: "0 \<le> bitlen q" by (rule bitlen_nonneg)
  have "(2::rat) powi (d - 1) \<le> a"
  proof -
    have 1: "(2::rat) ^ nat (bitlen p - 1) \<le> of_int p"
      using bp by (metis of_int_le_iff of_int_numeral of_int_power)
    have 2: "of_int q \<le> (2::rat) ^ nat (bitlen q)"
      using bq by (metis less_imp_le of_int_le_iff of_int_numeral of_int_power)
    have "(2::rat) powi (d - 1) = 2 powi (bitlen p - 1) / 2 powi (bitlen q)"
      unfolding d_def by (simp add: power_int_diff)
    also have "\<dots> = 2 ^ nat (bitlen p - 1) / 2 ^ nat (bitlen q)"
      using bp1 bq0 by (simp add: power_int_def)
    also have "\<dots> \<le> of_int p / of_int q"
      using 1 2 q p by (intro frac_le) auto
    finally show ?thesis using a by simp
  qed
  then show ?thesis
    unfolding floorlog2_def pq by (simp add: Let_def d_def)
qed

lemma roundHalfEven_of_int: "roundHalfEven (of_int n) = n"
  by (simp add: roundHalfEven_def)

lemma rnd_exact:
  assumes x: "x = of_int k * 2 powi j" and k: "\<bar>k\<bar> < 2 ^ 53" and j: "- 1074 \<le> j" "j \<le> 971"
  shows "rnd x = Fin x"
proof (cases "k = 0")
  case True
  then show ?thesis using x by (simp add: rnd_def)
next
  case False
  define a where "a = \<bar>x\<bar>"
  have a: "a = of_int \<bar>k\<bar> * 2 powi j" unfolding a_def x by (simp add: abs_mult)
  have apos: "0 < a" using False a by simp
  have xnz: "x \<noteq> 0" using apos a_def by auto
  define e where "e = max (floorlog2 a) (- 1022)"
  have "(2::rat) powi (floorlog2 a) \<le> a" by (rule floorlog2_lower[OF apos])
  also have ub: "a < 2 ^ 53 * 2 powi j"
  proof -
    have "(of_int \<bar>k\<bar> :: rat) < 2 ^ 53" using k by (metis of_int_less_iff of_int_numeral of_int_power)
    then show ?thesis unfolding a by (simp)
  qed
  also have "\<dots> = 2 powi (53 + j)" by (simp add: power_int_add)
  finally have lt: "(2::rat) powi (floorlog2 a) < 2 powi (53 + j)" .
  have "floorlog2 a < 53 + j"
  proof (rule ccontr)
    assume "\<not> floorlog2 a < 53 + j"
    then have "(2::rat) powi (53 + j) \<le> 2 powi (floorlog2 a)"
      by (intro power_int_increasing) auto
    with lt show False by simp
  qed
  then have ej: "e - 52 \<le> j" unfolding e_def using j by simp
  define m where "m = \<bar>k\<bar> * 2 ^ nat (j - (e - 52))"
  have "a / 2 powi (e - 52) = of_int \<bar>k\<bar> * 2 powi (j - (e - 52))"
    unfolding a by (simp add: power_int_diff)
  also have "\<dots> = of_int m" using ej unfolding m_def by (simp add: power_int_def)
  finally have quot: "a / 2 powi (e - 52) = of_int m" .
  have undo: "of_int m * 2 powi (e - 52) = a"
    using quot by (simp add: field_simps)
  have "a < 2 powi (53 + j)" using ub by (simp add: power_int_add)
  also have "\<dots> \<le> 2 powi 1024" using j by (intro power_int_increasing) auto
  finally have small: "\<not> 2 powi 1024 \<le> a" by simp
  have "rnd x = Fin (if x < 0 then - a else a)"
    using xnz small unfolding rnd_def a_def[symmetric] Let_def e_def[symmetric] quot roundHalfEven_of_int undo
    by simp
  then show ?thesis unfolding a_def by auto
qed

lemma rnd_of_int: "\<bar>n\<bar> < 2 ^ 53 \<Longrightarrow> rnd (of_int n) = Fin (of_int n)"
  using rnd_exact[of "of_int n" n 0] by simp

lemma rnd_half: "\<bar>n\<bar> < 2 ^ 53 \<Longrightarrow> rnd (of_int n / 2) = Fin (of_int n / 2)"
  using rnd_exact[of "of_int n / 2" n "-1"] by (simp add: power_int_def)

subsection \<open>The handlers see the disk through \<open>readJSONFile\<close> only\<close>

lemma readJSONFile_failure:
  "fs f = Unreadable \<or> fs f = Malformed \<Longrightarrow> readJSONFile fs = readJSONFile (fs(f := Parsed []))"
  by (auto simp: readJSONFile_def fun_eq_iff)

lemma api_movies_cong:
  assumes "readJSONFile fs = readJSONFile fs'" shows "api_movies fs q = api_movies fs' q"
  unfolding api_movies_def assms ..

lemma api_series_cong:
  assumes "readJSONFile fs = readJSONFile fs'" shows "api_series fs q = api_series fs' q"
  unfolding api_series_def assms ..

lemma api_movies_name_cong:
  assumes "readJSONFile fs = readJSONFile fs'"
  shows "api_movies_name fs n = api_movies_name fs' n"
  unfolding api_movies_name_def assms ..

lemma api_series_name_cong:
  assumes "readJSONFile fs = readJSONFile fs'"
  shows "api_series_name fs n = api_series_name fs' n"
  unfolding api_series_name_def assms ..

lemma api_series_name_episodes_cong:
  assumes "readJSONFile fs = readJSONFile fs'"
  shows "api_series_name_episodes fs n q = api_series_name_episodes fs' n q"
  unfolding api_series_name_episodes_def assms ..

lemma api_search_cong:
  assumes "readJSONFile fs = readJSONFile fs'" shows "api_search fs q = api_search fs' q"
  unfolding api_search_def searchResults_def assms ..

lemma api_iframe_cong:
  assumes "readJSONFile fs = readJSONFile fs'" shows "api_iframe fs q = api_iframe fs' q"
  unfolding api_iframe_def assms ..

lemma api_trending_cong:
  assumes "readJSONFile fs = readJSONFile fs'"
  shows "api_trending sh fs q = api_trending sh fs' q"
  unfolding api_trending_def trendingPool_def assms ..

lemma api_stats_cong:
  assumes "readJSONFile fs = readJSONFile fs'" shows "api_stats fs = api_stats fs'"
  unfolding api_stats_def assms ..

lemma api_genres_cong:
  assumes "readJSONFile fs = readJSONFile fs'" shows "api_genres fs = api_genres fs'"
  unfolding api_genres_def assms ..

section \<open>Missing required parameters\<close>

text \<open>
  C8. A request to \<open>/api/search\<close> without \<open>q\<close>, and a request to \<open>/api/iframe\<close> without
  \<open>title\<close>, is answered with status 400 and \<open>success: false\<close>, and no data file is read.
\<close>

theorem missing_parameter_is_bad_request:
  "(q ''q'' = None \<longrightarrow>
      status (fst (api_search fs q)) = 400 \<and> \<not> success (fst (api_search fs q)) \<and>
      snd (api_search fs q) = [])
   \<and> (q ''title'' = None \<longrightarrow>
      status (fst (api_iframe fs q)) = 400 \<and> \<not> success (fst (api_iframe fs q)) \<and>
      snd (api_iframe fs q) = [])"
  by (simp add: api_search_def api_iframe_def failed_def)

theorem missing_parameter_is_bad_request_witness:
  "noQuery ''q'' = None \<and> noQuery ''title'' = None \<and>
   api_search sampleStore noQuery =
     (\<lparr>status = 400, success = False, body = Failure ''Search query is required'' None\<rparr>, []) \<and>
   status (fst (api_iframe sampleStore noQuery)) = 400 \<and>
   \<not> success (fst (api_iframe sampleStore noQuery)) \<and>
   snd (api_iframe sampleStore noQuery) = []"
  using missing_parameter_is_bad_request [of noQuery sampleStore]
  by (simp add: noQuery_def api_search_def failed_def)

subsection \<open>Evaluation on the sample data\<close>

lemma rnd_numeral: "(numeral n :: int) < 2 ^ 53 \<Longrightarrow> rnd (numeral n) = Fin (numeral n)"
  using rnd_of_int[of "numeral n"] by simp

lemma rnd_1: "rnd 1 = Fin 1"
  using rnd_of_int[of 1] by simp

lemma rnd_of_nat: "n < 2 ^ 53 \<Longrightarrow> rnd (of_nat n) = Fin (of_nat n)"
  using rnd_of_int[of "int n"] by simp

lemmas string_eval = toLowerCase_def lowerChar_def sameName_def trimStart_def isWhiteSpace_def
  isDigit_def digitsValue_def digitVal_def parseInt_def char_of_def bit_iff_odd

lemmas sample_eval = sampleStore_def sampleMovies_def sampleSeries_def plainTitle_def
  plainEpisode_def readJSONFile_def

lemmas iframe_eval = api_iframe_def movieWithSources_def movieIframe_def episodeIframe_def
  seriesIframe_def findEpisode_def firstEpisode_def pickSource_def sourceKey_def ok_def failed_def
  ofInt_def

subsection \<open>Pages\<close>

lemma relativeIndex_of_nat: "relativeIndex len (Fin (of_nat n)) = min n len"
  by (simp add: relativeIndex_def toIntegerOrInfinity_def)

lemma slice_of_nat:
  "slice xs (Fin (of_nat a)) (Fin (of_nat (a + l))) = take l (drop a xs)"
  unfolding slice_def Let_def relativeIndex_of_nat
  by (cases "a \<le> length xs") (simp_all add: min_def)

lemma paginate_valid:
  assumes lim: "queryNumber lim' 20 = Fin (of_nat l)"
    and off: "queryNumber off' 0 = Fin (of_nat a)"
    and small: "a + l < 2 ^ 53"
  shows "paginate lim' off' xs =
           \<lparr>data = take l (drop a xs), total = length xs, limit = Fin (of_nat l),
            offset = Fin (of_nat a), hasMore = (a + l < length xs)\<rparr>"
proof -
  have "fadd (Fin (of_nat a)) (Fin (of_nat l)) = rnd (of_nat (a + l))" by simp
  also have "\<dots> = Fin (of_nat (a + l))" using small by (rule rnd_of_nat)
  finally have e: "fadd (Fin (of_nat a)) (Fin (of_nat l)) = Fin (of_nat (a + l))" .
  have lt: "flt (Fin (of_nat (a + l))) (ofNat (length xs)) = (a + l < length xs)"
    unfolding ofNat_def flt.simps by (metis of_int_of_nat_eq of_nat_less_iff)
  show ?thesis
    unfolding paginate_def Let_def lim off e slice_of_nat lt ..
qed

section \<open>Pagination of the list endpoints\<close>

text \<open>
  C2. For every store, every request and all valid \<open>limit\<close> and \<open>offset\<close>, the three list
  endpoints return as \<open>data\<close> the filtered collection sliced from \<open>offset\<close> to
  \<open>offset + limit\<close>, hence at most \<open>limit\<close> records, report as \<open>total\<close> the length of the
  filtered collection, and report \<open>hasMore\<close> exactly when \<open>offset + limit\<close> is below that
  total. Valid means that the two parameters (or their defaults 20 and 0) are read by
  \<open>parseInt\<close> as natural numbers \<open>l\<close> and \<open>a\<close> whose sum is a safe integer. The filtered
  collection is the file's array after the search and the genre filter; for \<open>/api/search\<close>
  it is the array \<open>results\<close>, and the request carries a non-empty \<open>q\<close>.
\<close>

theorem list_endpoints_paginate:
  assumes lim: "queryNumber (q ''limit'') 20 = Fin (of_nat l)"
    and off: "queryNumber (q ''offset'') 0 = Fin (of_nat a)"
    and small: "a + l < 2 ^ 53"
  shows "(let ms = genreFilter (q ''genre'') (searchFilter (q ''search'') (readJSONFile fs ''movies.json''))
          in fst (api_movies fs q) =
               ok (TitlePage \<lparr>data = take l (drop a ms), total = length ms, limit = Fin (of_nat l),
                               offset = Fin (of_nat a), hasMore = (a + l < length ms)\<rparr>)
             \<and> length (take l (drop a ms)) \<le> l)
       \<and> (let ss = genreFilter (q ''genre'') (searchFilter (q ''search'') (readJSONFile fs ''series.json''))
          in fst (api_series fs q) =
               ok (TitlePage \<lparr>data = take l (drop a ss), total = length ss, limit = Fin (of_nat l),
                               offset = Fin (of_nat a), hasMore = (a + l < length ss)\<rparr>)
             \<and> length (take l (drop a ss)) \<le> l)
       \<and> (\<forall>qs. q ''q'' = Some qs \<and> qs \<noteq> [] \<longrightarrow>
            (let rs = fst (searchResults fs q qs)
             in fst (api_search fs q) =
                  ok (SearchPage \<lparr>data = take l (drop a rs), total = length rs, limit = Fin (of_nat l),
                                   offset = Fin (of_nat a), hasMore = (a + l < length rs)\<rparr> qs)
                \<and> length (take l (drop a rs)) \<le> l))"
  by (simp add: api_movies_def api_series_def api_search_def paginate_valid[OF lim off small]
      Let_def split: prod.splits)

theorem list_endpoints_paginate_witness:
  "queryNumber (pageQuery ''limit'') 20 = Fin (of_nat 2) \<and>
   queryNumber (pageQuery ''offset'') 0 = Fin (of_nat 1) \<and>
   (1::nat) + 2 < 2 ^ 53 \<and>
   fst (api_movies sampleStore pageQuery) =
     ok (TitlePage \<lparr>data = tl sampleMovies, total = length sampleMovies, limit = Fin 2,
                    offset = Fin 1, hasMore = False\<rparr>)"
proof -
  have lim: "queryNumber (pageQuery ''limit'') 20 = Fin (of_nat 2)"
    by (simp add: pageQuery_def queryNumber_def string_eval rnd_numeral)
  have off: "queryNumber (pageQuery ''offset'') 0 = Fin (of_nat 1)"
    by (simp add: pageQuery_def queryNumber_def string_eval rnd_1)
  have small: "(1::nat) + 2 < 2 ^ 53" by simp
  have ms: "genreFilter (pageQuery ''genre'') (searchFilter (pageQuery ''search'')
              (readJSONFile sampleStore ''movies.json'')) = sampleMovies"
    by (simp add: pageQuery_def genreFilter_def searchFilter_def readJSONFile_def sampleStore_def)
  from list_endpoints_paginate [where q = pageQuery and fs = sampleStore, OF lim off small]
  show ?thesis using lim off
    by (simp add: Let_def ms sampleMovies_def)
qed

section \<open>Order of the two filters\<close>

text \<open>
  C5. On every collection, for every search term and every genre term, the search filter
  (name, description or genre contains the term, case-insensitively) followed by the genre
  filter gives the same records, in the same order, as the genre filter followed by the
  search filter; so \<open>/api/movies\<close> and \<open>/api/series\<close>, which filter by search first, answer
  as if they filtered by genre first.
\<close>

theorem search_and_genre_filters_commute:
  "genreFilter g (searchFilter s xs) = searchFilter s (genreFilter g xs)
   \<and> fst (api_movies fs q) =
       ok (TitlePage (paginate (q ''limit'') (q ''offset'')
             (searchFilter (q ''search'') (genreFilter (q ''genre'') (readJSONFile fs ''movies.json'')))))
   \<and> fst (api_series fs q) =
       ok (TitlePage (paginate (q ''limit'') (q ''offset'')
             (searchFilter (q ''search'') (genreFilter (q ''genre'') (readJSONFile fs ''series.json'')))))"
proof -
  have comm: "\<And>g s (xs :: 'b Title_scheme list).
      genreFilter g (searchFilter s xs) = searchFilter s (genreFilter g xs)"
    by (auto simp: genreFilter_def searchFilter_def split: option.splits intro: filter_cong)
  show ?thesis
    by (simp add: api_movies_def api_series_def comm)
qed

theorem search_and_genre_filters_commute_witness:
  "genreFilter (Some ''CRIME'') (searchFilter (Some ''film'') sampleSeries) = [hd sampleSeries]
   \<and> searchFilter (Some ''film'') (genreFilter (Some ''CRIME'') sampleSeries) = [hd sampleSeries]"
proof -
  have "genreFilter (Some ''CRIME'') (searchFilter (Some ''film'') sampleSeries) = [hd sampleSeries]"
    by (simp add: genreFilter_def searchFilter_def matchesGenre_def matchesSearch_def
        string_eval sample_eval)
  with search_and_genre_filters_commute [of "Some ''CRIME''" "Some ''film''" sampleSeries]
  show ?thesis by simp
qed

section \<open>The genre value all\<close>

text \<open>
  C10. For every store and every request, the genre value \<open>all\<close> switches the genre filter
  off: \<open>/api/movies\<close>, \<open>/api/series\<close> and \<open>/api/search\<close> answer exactly as they do with no
  genre parameter, whether or not any genre field contains the letters \<open>all\<close>.
\<close>

theorem genre_all_disables_genre_filter:
  "api_movies fs (q(''genre'' \<mapsto> ''all'')) = api_movies fs (q(''genre'' := None))
   \<and> api_series fs (q(''genre'' \<mapsto> ''all'')) = api_series fs (q(''genre'' := None))
   \<and> api_search fs (q(''genre'' \<mapsto> ''all'')) = api_search fs (q(''genre'' := None))"
  by (simp add: api_movies_def api_series_def api_search_def searchResults_def genreFilter_def
      split: option.splits)

theorem genre_all_disables_genre_filter_witness:
  "filter (matchesGenre ''all'') sampleMovies = [] \<and>
   fst (api_movies sampleStore (noQuery(''genre'' \<mapsto> ''all''))) =
     ok (TitlePage \<lparr>data = sampleMovies, total = length sampleMovies, limit = Fin 20,
                    offset = Fin 0, hasMore = False\<rparr>)"
proof -
  have none: "filter (matchesGenre ''all'') sampleMovies = []"
    by (simp add: matchesGenre_def string_eval sample_eval)
  have plain: "fst (api_movies sampleStore (noQuery(''genre'' := None))) =
      ok (TitlePage \<lparr>data = sampleMovies, total = length sampleMovies, limit = Fin 20,
                     offset = Fin 0, hasMore = False\<rparr>)"
    by (simp add: api_movies_def noQuery_def searchFilter_def genreFilter_def paginate_def
        queryNumber_def slice_def relativeIndex_def toIntegerOrInfinity_def ofNat_def
        rnd_numeral sample_eval)
  from genre_all_disables_genre_filter [of sampleStore noQuery]
  show ?thesis using none plain by simp
qed

section \<open>Unreadable data files\<close>

text \<open>
  C7. Whenever reading a data file fails or its text does not parse, \<open>readJSONFile\<close> yields
  the empty collection and no error leaves it: every endpoint that reads the store answers
  exactly as it does when that file holds an empty array.
\<close>

theorem read_failure_is_empty_collection:
  assumes "fs f = Unreadable \<or> fs f = Malformed"
  shows "readJSONFile fs f = []
    \<and> api_movies fs q = api_movies (fs(f := Parsed [])) q
    \<and> api_movies_name fs n = api_movies_name (fs(f := Parsed [])) n
    \<and> api_series fs q = api_series (fs(f := Parsed [])) q
    \<and> api_series_name fs n = api_series_name (fs(f := Parsed [])) n
    \<and> api_series_name_episodes fs n q = api_series_name_episodes (fs(f := Parsed [])) n q
    \<and> api_search fs q = api_search (fs(f := Parsed [])) q
    \<and> api_iframe fs q = api_iframe (fs(f := Parsed [])) q
    \<and> api_trending shuffle fs q = api_trending shuffle (fs(f := Parsed [])) q
    \<and> api_stats fs = api_stats (fs(f := Parsed []))
    \<and> api_genres fs = api_genres (fs(f := Parsed []))"
proof -
  have same: "readJSONFile fs = readJSONFile (fs(f := Parsed []))"
    using assms by (rule readJSONFile_failure)
  have "readJSONFile fs f = []"
    using assms by (auto simp: readJSONFile_def)
  then show ?thesis
    using api_movies_cong[OF same] api_movies_name_cong[OF same] api_series_cong[OF same]
      api_series_name_cong[OF same] api_series_name_episodes_cong[OF same]
      api_search_cong[OF same] api_iframe_cong[OF same] api_trending_cong[OF same]
      api_stats_cong[OF same] api_genres_cong[OF same]
    by simp
qed

theorem read_failure_is_empty_collection_witness:
  "(brokenStore ''movies.json'' = Unreadable \<or> brokenStore ''movies.json'' = Malformed) \<and>
   readJSONFile brokenStore ''movies.json'' = [] \<and>
   api_movies brokenStore noQuery =
     (\<lparr>status = 200, success = True,
       body = TitlePage \<lparr>data = [], total = 0, limit = Fin 20, offset = Fin 0, hasMore = False\<rparr>\<rparr>,
      [''movies.json'']) \<and>
   api_movies_name brokenStore ''Alien'' =
     (\<lparr>status = 404, success = False, body = Failure ''Movie not found'' None\<rparr>, [''movies.json''])"
proof -
  have h: "brokenStore ''movies.json'' = Unreadable \<or> brokenStore ''movies.json'' = Malformed"
    by (simp add: brokenStore_def)
  have e: "readJSONFile (brokenStore(''movies.json'' := Parsed [])) ''movies.json'' = []"
    by (simp add: readJSONFile_def)
  from read_failure_is_empty_collection
    [where fs = brokenStore and f = "''movies.json''" and q = noQuery and n = "''Alien''", OF h]
  show ?thesis using h
    by (simp add: api_movies_def api_movies_name_def e searchFilter_def genreFilter_def
        noQuery_def paginate_def queryNumber_def slice_def relativeIndex_def
        toIntegerOrInfinity_def ofNat_def ok_def failed_def rnd_numeral)
qed

section \<open>Movies before series\<close>

text \<open>
  C1, as the code has it. The specification says that a title matching a movie is always answered
  from that movie and that the series file is never consulted, even when the movie has no
  sources mapping. The handler guards the movie branch with \<open>movie && movie.sources\<close>: a
  matched movie without a sources mapping is passed over and the series are looked up.
  On the sample store \<open>heat\<close> matches the movie \<open>Heat\<close>, which has no sources, and the
  answer is the first episode of the series \<open>Heat\<close>, after both files were read.
\<close>

theorem movie_without_sources_counterexample:
  "find (sameName ''heat'') (readJSONFile sampleStore ''movies.json'') =
     Some (plainTitle ''Heat'' ''Crime'' (Some (RNum 9))) \<and>
   Title.sources (plainTitle ''Heat'' ''Crime'' (Some (RNum 9))) = None \<and>
   api_iframe sampleStore heatQuery =
     (\<lparr>status = 200, success = True,
       body = Iframe \<lparr>IframeData.title = ''Heat'', type = ''series'', season = Some 1,
                      episode = Some 1, episodeTitle = Some ''Pilot'',
                      iframe = Some ''https://h/1'', availableSources = [''source1'']\<rparr>\<rparr>,
      [''movies.json'', ''series.json''])"
  by (simp add: heatQuery_def string_eval sample_eval iframe_eval)

text \<open>
  C1, amended. For every request whose title matches a movie (the first one in file order
  whose name equals the title up to case): if that movie has a sources mapping, the answer
  is built from that movie and only the movie file is read; if it has none, the series
  file is read as well and the answer is the one of the series branch.
\<close>

theorem movie_with_sources_answers_first:
  assumes "q ''title'' = Some t" and "t \<noteq> []"
    and "find (sameName t) (readJSONFile fs ''movies.json'') = Some movie"
  shows "(\<forall>srcs. Title.sources movie = Some srcs \<longrightarrow>
            api_iframe fs q =
              (movieIframe movie srcs (case q ''source'' of None \<Rightarrow> ''primary'' | Some s \<Rightarrow> s),
               [''movies.json'']))
       \<and> (Title.sources movie = None \<longrightarrow>
            snd (api_iframe fs q) = [''movies.json'', ''series.json''] \<and>
            fst (api_iframe fs q) =
              (case find (sameName t) (readJSONFile fs ''series.json'') of
                 None \<Rightarrow> failed 404 ''Content not found'' None
               | Some show \<Rightarrow>
                   seriesIframe show (q ''season'') (q ''episode'')
                     (case q ''source'' of None \<Rightarrow> ''primary'' | Some s \<Rightarrow> s)))"
  using assms by (simp add: api_iframe_def movieWithSources_def Let_def)

theorem movie_with_sources_answers_first_witness:
  "alienQuery ''title'' = Some ''ALIEN'' \<and> ''ALIEN'' \<noteq> [] \<and>
   find (sameName ''ALIEN'') (readJSONFile sampleStore ''movies.json'') = Some (hd sampleMovies) \<and>
   api_iframe sampleStore alienQuery =
     (\<lparr>status = 200, success = True,
       body = Iframe \<lparr>IframeData.title = ''Alien'', type = ''movie'', season = None,
                      episode = None, episodeTitle = None,
                      iframe = Some ''https://a/2'', availableSources = [''source1'', ''source2'']\<rparr>\<rparr>,
      [''movies.json''])"
proof -
  have t: "alienQuery ''title'' = Some ''ALIEN''" by (simp add: alienQuery_def)
  have m: "find (sameName ''ALIEN'') (readJSONFile sampleStore ''movies.json'') = Some (hd sampleMovies)"
    by (simp add: string_eval sample_eval)
  have s: "Title.sources (hd sampleMovies) =
      Some [(''source1'', ''https://a/1''), (''source2'', ''https://a/2'')]"
    by (simp add: sample_eval)
  from movie_with_sources_answers_first
    [where q = alienQuery and t = "''ALIEN''" and fs = sampleStore, OF t _ m] s
  show ?thesis using t m
    by (simp add: alienQuery_def movieIframe_def pickSource_def sourceKey_def ok_def sample_eval)
qed

section \<open>Source selection\<close>

lemma firstEpisode_success:
  assumes "success (firstEpisode show src)"
  shows "\<exists>eps ep srcs. Title.episodes show = Some eps \<and> ep \<in> set eps \<and>
           Episode.sources ep = Some srcs \<and> firstEpisode show src = episodeIframe show ep srcs src"
  using assms
  by (auto simp: firstEpisode_def failed_def split: option.splits list.splits)

lemma findEpisode_member:
  assumes "findEpisode show s e = Some ep"
  shows "\<exists>eps. Title.episodes show = Some eps \<and> ep \<in> set eps"
  using assms
  by (auto simp: findEpisode_def find_Some_iff split: option.splits if_splits)

lemma seriesIframe_success:
  assumes "success (seriesIframe show s e src)"
  shows "\<exists>eps ep srcs. Title.episodes show = Some eps \<and> ep \<in> set eps \<and>
           Episode.sources ep = Some srcs \<and> seriesIframe show s e src = episodeIframe show ep srcs src"
proof (cases "findEpisode show s e")
  case None
  then show ?thesis using assms firstEpisode_success[of "show" src]
    by (simp add: seriesIframe_def)
next
  case (Some ep)
  show ?thesis
  proof (cases "Episode.sources ep")
    case None
    then show ?thesis using Some assms firstEpisode_success[of "show" src]
      by (simp add: seriesIframe_def)
  next
    case (Some srcs)
    then show ?thesis using \<open>findEpisode show s e = Some ep\<close> findEpisode_member[of "show" s e ep]
      by (auto simp: seriesIframe_def)
  qed
qed

lemma movieWithSources_Some:
  "movieWithSources ms t = Some (m, srcs) \<longleftrightarrow> find (sameName t) ms = Some m \<and> Title.sources m = Some srcs"
  by (auto simp: movieWithSources_def split: option.splits)

text \<open>
  C3. The selector maps \<open>primary\<close> to \<open>source1\<close>, \<open>secondary\<close> to \<open>source2\<close>, \<open>tertiary\<close> to
  \<open>source3\<close> and every other value to \<open>source1\<close>. Every successful answer of the resolver is
  built from one record (the movie of that name, or an episode of the series of that name)
  that has a sources mapping, and its \<open>iframe\<close> is resolved from that mapping: when the
  mapped slot is absent, the \<open>iframe\<close> is the record's \<open>source1\<close>; when the mapped slot holds a
  URL, it is that URL. In particular a known movie asked for with \<open>source=secondary\<close> gives
  its \<open>source2\<close> if present and its \<open>source1\<close> otherwise. A slot is present when it holds a
  non-empty URL: the code tests \<open>sources[key] || sources.source1\<close>, so an empty string gives
  way to \<open>source1\<close> like an absent slot.
\<close>

theorem source_selector_resolution:
  assumes t: "q ''title'' = Some t" "t \<noteq> []"
    and succ: "success (fst (api_iframe fs q))"
  shows "sourceKey ''primary'' = ''source1'' \<and> sourceKey ''secondary'' = ''source2'' \<and>
         sourceKey ''tertiary'' = ''source3'' \<and>
         (\<forall>s. s \<noteq> ''primary'' \<and> s \<noteq> ''secondary'' \<and> s \<noteq> ''tertiary'' \<longrightarrow> sourceKey s = ''source1'')
       \<and> (\<exists>d srcs. body (fst (api_iframe fs q)) = Iframe d \<and> availableSources d = map fst srcs \<and>
            ((\<exists>movie. find (sameName t) (readJSONFile fs ''movies.json'') = Some movie \<and>
                       Title.sources movie = Some srcs \<and> IframeData.type d = ''movie'')
             \<or> (\<exists>show eps ep. find (sameName t) (readJSONFile fs ''series.json'') = Some show \<and>
                       Title.episodes show = Some eps \<and> ep \<in> set eps \<and>
                       Episode.sources ep = Some srcs \<and> IframeData.type d = ''series'' \<and>
                       IframeData.season d = Some (Episode.season ep) \<and>
                       IframeData.episode d = Some (Episode.episode ep))) \<and>
            (let slot = sourceKey (case q ''source'' of None \<Rightarrow> ''primary'' | Some s \<Rightarrow> s)
             in (map_of srcs slot = None \<longrightarrow> iframe d = map_of srcs ''source1'') \<and>
                (\<forall>url. map_of srcs slot = Some url \<and> url \<noteq> [] \<longrightarrow> iframe d = Some url) \<and>
                (map_of srcs slot = Some [] \<longrightarrow> iframe d = map_of srcs ''source1'')))
       \<and> (\<forall>movie srcs. find (sameName t) (readJSONFile fs ''movies.json'') = Some movie \<and>
              Title.sources movie = Some srcs \<and> q ''source'' = Some ''secondary'' \<longrightarrow>
            (\<exists>d. body (fst (api_iframe fs q)) = Iframe d \<and>
                 iframe d = (case map_of srcs ''source2'' of
                               None \<Rightarrow> map_of srcs ''source1''
                             | Some url \<Rightarrow> if url = [] then map_of srcs ''source1'' else Some url)))"
proof (intro conjI)
  define src where "src = (case q ''source'' of None \<Rightarrow> ''primary'' | Some s \<Rightarrow> s)"
  show "\<exists>d srcs. body (fst (api_iframe fs q)) = Iframe d \<and> availableSources d = map fst srcs \<and>
            ((\<exists>movie. find (sameName t) (readJSONFile fs ''movies.json'') = Some movie \<and>
                       Title.sources movie = Some srcs \<and> IframeData.type d = ''movie'')
             \<or> (\<exists>show eps ep. find (sameName t) (readJSONFile fs ''series.json'') = Some show \<and>
                       Title.episodes show = Some eps \<and> ep \<in> set eps \<and>
                       Episode.sources ep = Some srcs \<and> IframeData.type d = ''series'' \<and>
                       IframeData.season d = Some (Episode.season ep) \<and>
                       IframeData.episode d = Some (Episode.episode ep))) \<and>
            (let slot = sourceKey (case q ''source'' of None \<Rightarrow> ''primary'' | Some s \<Rightarrow> s)
             in (map_of srcs slot = None \<longrightarrow> iframe d = map_of srcs ''source1'') \<and>
                (\<forall>url. map_of srcs slot = Some url \<and> url \<noteq> [] \<longrightarrow> iframe d = Some url) \<and>
                (map_of srcs slot = Some [] \<longrightarrow> iframe d = map_of srcs ''source1''))"
  proof (cases "movieWithSources (readJSONFile fs ''movies.json'') t")
    case (Some p)
    obtain m srcs where p: "p = (m, srcs)" by (cases p)
    have r: "fst (api_iframe fs q) = movieIframe m srcs src"
      using t Some p by (simp add: api_iframe_def src_def)
    have ms: "find (sameName t) (readJSONFile fs ''movies.json'') = Some m" "Title.sources m = Some srcs"
      using Some p by (simp_all add: movieWithSources_Some)
    show ?thesis
      unfolding r src_def[symmetric]
      using ms by (auto simp: movieIframe_def ok_def pickSource_def Let_def)
  next
    case None
    show ?thesis
    proof (cases "find (sameName t) (readJSONFile fs ''series.json'')")
      case None
      then show ?thesis using t succ \<open>movieWithSources (readJSONFile fs ''movies.json'') t = None\<close>
        by (simp add: api_iframe_def failed_def)
    next
      case (Some sh)
      have r: "fst (api_iframe fs q) = seriesIframe sh (q ''season'') (q ''episode'') src"
        using t Some \<open>movieWithSources (readJSONFile fs ''movies.json'') t = None\<close>
        by (simp add: api_iframe_def src_def)
      from succ r seriesIframe_success[of sh "q ''season''" "q ''episode''" src]
      obtain eps ep srcs where e: "Title.episodes sh = Some eps" "ep \<in> set eps"
        "Episode.sources ep = Some srcs"
        "seriesIframe sh (q ''season'') (q ''episode'') src = episodeIframe sh ep srcs src"
        by auto
      show ?thesis
        unfolding r e(4) src_def[symmetric]
        using Some e(1,2,3)
        by (auto simp: episodeIframe_def ok_def pickSource_def Let_def)
    qed
  qed
  show "\<forall>movie srcs. find (sameName t) (readJSONFile fs ''movies.json'') = Some movie \<and>
              Title.sources movie = Some srcs \<and> q ''source'' = Some ''secondary'' \<longrightarrow>
            (\<exists>d. body (fst (api_iframe fs q)) = Iframe d \<and>
                 iframe d = (case map_of srcs ''source2'' of
                               None \<Rightarrow> map_of srcs ''source1''
                             | Some url \<Rightarrow> if url = [] then map_of srcs ''source1'' else Some url))"
    using t
    by (auto simp: api_iframe_def movieWithSources_def movieIframe_def ok_def pickSource_def
        sourceKey_def)
qed (simp_all add: sourceKey_def)

theorem source_selector_resolution_witness:
  "alienQuery ''title'' = Some ''ALIEN'' \<and> ''ALIEN'' \<noteq> [] \<and>
   success (fst (api_iframe sampleStore alienQuery)) \<and>
   alienQuery ''source'' = Some ''secondary'' \<and>
   (\<exists>d. body (fst (api_iframe sampleStore alienQuery)) = Iframe d \<and>
        iframe d = Some ''https://a/2'')"
proof -
  have t: "alienQuery ''title'' = Some ''ALIEN''" "''ALIEN'' \<noteq> []"
    by (simp_all add: alienQuery_def)
  have src: "alienQuery ''source'' = Some ''secondary''" by (simp add: alienQuery_def)
  have succ: "success (fst (api_iframe sampleStore alienQuery))"
    by (simp add: alienQuery_def string_eval sample_eval iframe_eval)
  have m: "find (sameName ''ALIEN'') (readJSONFile sampleStore ''movies.json'') = Some (hd sampleMovies)"
    by (simp add: string_eval sample_eval)
  have s: "Title.sources (hd sampleMovies) =
      Some [(''source1'', ''https://a/1''), (''source2'', ''https://a/2'')]"
    by (simp add: sample_eval)
  from source_selector_resolution [where q = alienQuery and fs = sampleStore, OF t succ]
  have "\<forall>movie srcs. find (sameName ''ALIEN'') (readJSONFile sampleStore ''movies.json'') = Some movie \<and>
              Title.sources movie = Some srcs \<and> alienQuery ''source'' = Some ''secondary'' \<longrightarrow>
            (\<exists>d. body (fst (api_iframe sampleStore alienQuery)) = Iframe d \<and>
                 iframe d = (case map_of srcs ''source2'' of
                               None \<Rightarrow> map_of srcs ''source1''
                             | Some url \<Rightarrow> if url = [] then map_of srcs ''source1'' else Some url))"
    by blast
  from this m s src
  have "\<exists>d. body (fst (api_iframe sampleStore alienQuery)) = Iframe d \<and>
      iframe d = (case map_of [(''source1'', ''https://a/1''), (''source2'', ''https://a/2'')] ''source2'' of
                    None \<Rightarrow> map_of [(''source1'', ''https://a/1''), (''source2'', ''https://a/2'')] ''source1''
                  | Some url \<Rightarrow> if url = []
                      then map_of [(''source1'', ''https://a/1''), (''source2'', ''https://a/2'')] ''source1''
                      else Some url)"
    by blast
  then show ?thesis using t src succ by simp
qed

section \<open>Fallback to the first episode\<close>

lemma findEpisode_None:
  assumes "q ''season'' = None \<or> q ''episode'' = None \<or>
      (\<exists>s e. q ''season'' = Some s \<and> q ''episode'' = Some e \<and>
         (\<forall>ep \<in> set eps. \<not> (strictEq (ofInt (Episode.season ep)) (parseInt s) \<and>
                               strictEq (ofInt (Episode.episode ep)) (parseInt e))))"
    and "Title.episodes show = Some eps"
  shows "findEpisode show (q ''season'') (q ''episode'') = None"
  using assms
  by (auto simp: findEpisode_def find_None_iff split: option.splits)

text \<open>
  C4, as the code has it. The specification says that the fallback always returns a source taken
  from the first episode. The fallback answers with the first episode, but the \<open>iframe\<close> is
  \<open>firstEp.sources[sourceKey] || firstEp.sources.source1\<close>: for the series \<open>Lost\<close> of the
  sample store, whose first episode has only \<open>source2\<close>, the request for the absent episode
  9 of season 9 is answered with the first episode and no \<open>iframe\<close> at all. For the series
  \<open>Dark\<close>, whose first episode has no sources mapping, the same expression throws and the
  answer is the 500 envelope.
\<close>

theorem first_episode_counterexample:
  "api_iframe sampleStore lostQuery =
     (\<lparr>status = 200, success = True,
       body = Iframe \<lparr>IframeData.title = ''Lost'', type = ''series'', season = Some 1,
                      episode = Some 1, episodeTitle = Some ''Pilot'',
                      iframe = None, availableSources = [''source2'']\<rparr>\<rparr>,
      [''movies.json'', ''series.json'']) \<and>
   api_iframe sampleStore darkQuery =
     (\<lparr>status = 500, success = False,
       body = Failure ''Failed to get iframe source'' (Some TypeError)\<rparr>,
      [''movies.json'', ''series.json''])"
  by (simp add: lostQuery_def darkQuery_def string_eval sample_eval iframe_eval rnd_numeral rnd_1)

text \<open>
  C4, amended. For every request that names a series and no movie with sources, when the
  series has a non-empty episode list whose first episode has a sources mapping, and the
  given season and episode match no stored episode or are not both given, the answer is
  built from the first episode in stored order: its season, episode and title, and as
  \<open>iframe\<close> its mapped slot if that holds a URL, else its \<open>source1\<close> if it has one, else
  nothing.
\<close>

theorem first_episode_fallback:
  assumes t: "q ''title'' = Some t" "t \<noteq> []"
    and nomovie: "\<forall>movie. find (sameName t) (readJSONFile fs ''movies.json'') = Some movie \<longrightarrow>
                    Title.sources movie = None"
    and series: "find (sameName t) (readJSONFile fs ''series.json'') = Some show"
    and eps: "Title.episodes show = Some (firstEp # rest)"
    and nomatch: "q ''season'' = None \<or> q ''episode'' = None \<or>
      (\<exists>s e. q ''season'' = Some s \<and> q ''episode'' = Some e \<and>
         (\<forall>ep \<in> set (firstEp # rest).
            \<not> (strictEq (ofInt (Episode.season ep)) (parseInt s) \<and>
               strictEq (ofInt (Episode.episode ep)) (parseInt e))))"
    and srcs: "Episode.sources firstEp = Some srcs"
  shows "api_iframe fs q =
     (\<lparr>status = 200, success = True,
       body = Iframe
         \<lparr>IframeData.title = Title.name show, type = ''series'',
          season = Some (Episode.season firstEp), episode = Some (Episode.episode firstEp),
          episodeTitle = Some (Episode.title firstEp),
          iframe =
            (case map_of srcs (sourceKey (case q ''source'' of None \<Rightarrow> ''primary'' | Some s \<Rightarrow> s)) of
               None \<Rightarrow> map_of srcs ''source1''
             | Some url \<Rightarrow> if url = [] then map_of srcs ''source1'' else Some url),
          availableSources = map fst srcs\<rparr>\<rparr>,
      [''movies.json'', ''series.json''])"
proof -
  have m: "movieWithSources (readJSONFile fs ''movies.json'') t = None"
    using nomovie by (auto simp: movieWithSources_def split: option.splits)
  have f: "findEpisode show (q ''season'') (q ''episode'') = None"
    using nomatch eps by (rule findEpisode_None)
  show ?thesis
    using t m series f eps srcs
    by (simp add: api_iframe_def seriesIframe_def firstEpisode_def episodeIframe_def ok_def
        pickSource_def)
qed

theorem first_episode_fallback_witness:
  "heatEpisodeQuery ''title'' = Some ''heat'' \<and>
   find (sameName ''heat'') (readJSONFile sampleStore ''series.json'') = Some (hd sampleSeries) \<and>
   api_iframe sampleStore heatEpisodeQuery =
     (\<lparr>status = 200, success = True,
       body = Iframe \<lparr>IframeData.title = ''Heat'', type = ''series'', season = Some 1,
                      episode = Some 1, episodeTitle = Some ''Pilot'',
                      iframe = Some ''https://h/1'', availableSources = [''source1'']\<rparr>\<rparr>,
      [''movies.json'', ''series.json''])"
proof -
  have t: "heatEpisodeQuery ''title'' = Some ''heat''" "''heat'' \<noteq> []" by (simp_all add: heatEpisodeQuery_def)
  have nomovie: "\<forall>movie. find (sameName ''heat'') (readJSONFile sampleStore ''movies.json'') = Some movie \<longrightarrow>
                    Title.sources movie = None"
    by (simp add: string_eval sample_eval)
  have series: "find (sameName ''heat'') (readJSONFile sampleStore ''series.json'') = Some (hd sampleSeries)"
    by (simp add: string_eval sample_eval)
  have eps: "Title.episodes (hd sampleSeries) =
      Some (plainEpisode 1 1 ''Pilot'' (Some [(''source1'', ''https://h/1'')]) #
            [plainEpisode 1 2 ''Second'' (Some [(''source1'', ''https://h/2''), (''source3'', ''https://h/23'')])])"
    by (simp add: sampleSeries_def)
  have nine: "parseInt ''9'' = Fin 9" by (simp add: string_eval rnd_numeral)
  have nomatch: "heatEpisodeQuery ''season'' = None \<or> heatEpisodeQuery ''episode'' = None \<or>
      (\<exists>s e. heatEpisodeQuery ''season'' = Some s \<and> heatEpisodeQuery ''episode'' = Some e \<and>
         (\<forall>ep \<in> set (plainEpisode 1 1 ''Pilot'' (Some [(''source1'', ''https://h/1'')]) #
            [plainEpisode 1 2 ''Second'' (Some [(''source1'', ''https://h/2''), (''source3'', ''https://h/23'')])]).
            \<not> (strictEq (ofInt (Episode.season ep)) (parseInt s) \<and>
               strictEq (ofInt (Episode.episode ep)) (parseInt e))))"
    by (simp add: heatEpisodeQuery_def nine ofInt_def rnd_1 rnd_numeral plainEpisode_def)
  have srcs: "Episode.sources (plainEpisode 1 1 ''Pilot'' (Some [(''source1'', ''https://h/1'')])) =
      Some [(''source1'', ''https://h/1'')]"
    by (simp add: plainEpisode_def)
  from first_episode_fallback [where q = heatEpisodeQuery and fs = sampleStore, OF t nomovie series eps nomatch srcs]
  show ?thesis using t series
    by (simp add: heatEpisodeQuery_def sourceKey_def plainEpisode_def sampleSeries_def plainTitle_def)
qed

section \<open>Trending\<close>

subsection \<open>The sign of a rounded difference\<close>

lemma roundHalfEven_ge_floor: "\<lfloor>y\<rfloor> \<le> roundHalfEven y"
  by (simp add: roundHalfEven_def Let_def)

lemma roundHalfEven_pos:
  assumes "1 \<le> y"
  shows "1 \<le> roundHalfEven y"
proof -
  have "1 \<le> \<lfloor>y\<rfloor>" using assms by simp
  then show ?thesis using roundHalfEven_ge_floor[of y] by linarith
qed

lemma ulp_multiple:
  assumes "- 1022 \<le> e"
  shows "(2::rat) powi (e - 52) = of_int (2 ^ nat (e + 1022)) * 2 powi (- 1074)"
proof -
  have split: "e - 52 = (e + 1022) + (- 1074)" by simp
  have "(2::rat) powi (e - 52) = 2 powi (e + 1022) * 2 powi (- 1074)"
    unfolding split by (rule power_int_add) simp
  also have "(2::rat) powi (e + 1022) = of_int (2 ^ nat (e + 1022))"
    using assms by (simp add: power_int_def)
  finally show ?thesis .
qed

lemma rnd_representable:
  assumes "rnd x = Fin y"
  shows "\<exists>k. y = of_int k * 2 powi (- 1074)"
proof (cases "x = 0")
  case True
  then have "y = 0" using assms by (simp add: rnd_def)
  then show ?thesis by (intro exI[of _ 0]) simp
next
  case False
  define a where "a = \<bar>x\<bar>"
  define e where "e = max (floorlog2 a) (- 1022)"
  define m where "m = roundHalfEven (a / 2 powi (e - 52))"
  have e: "- 1022 \<le> e" unfolding e_def by simp
  have "y = (if x < 0 then - (of_int m * 2 powi (e - 52)) else of_int m * 2 powi (e - 52))"
    using assms False
    unfolding rnd_def Let_def a_def[symmetric] e_def[symmetric] m_def[symmetric]
    by (simp split: if_splits)
  then have "y = of_int (if x < 0 then - m else m) * 2 powi (e - 52)" by simp
  also have "\<dots> = of_int ((if x < 0 then - m else m) * 2 ^ nat (e + 1022)) * 2 powi (- 1074)"
    unfolding ulp_multiple[OF e] by simp
  finally show ?thesis by blast
qed

lemma rnd_sign:
  assumes "x = of_int k * 2 powi (- 1074)"
  shows "flt (Fin 0) (rnd x) = (0 < x)"
proof (cases "x = 0")
  case True
  then show ?thesis by (simp add: rnd_def)
next
  case False
  define a where "a = \<bar>x\<bar>"
  define e where "e = max (floorlog2 a) (- 1022)"
  define m where "m = roundHalfEven (a / 2 powi (e - 52))"
  define r where "r = of_int m * (2::rat) powi (e - 52)"
  have apos: "0 < a" using False a_def by simp
  have ulp: "0 < (2::rat) powi (e - 52)" by simp
  have rn: "rnd x = (if 2 powi 1024 \<le> r then (if x < 0 then NegInf else PosInf)
                     else Fin (if x < 0 then - r else r))"
    using False
    unfolding rnd_def Let_def a_def[symmetric] e_def[symmetric] m_def[symmetric] r_def[symmetric]
    by simp
  have q1: "1 \<le> a / 2 powi (e - 52)"
  proof (cases "- 1022 \<le> floorlog2 a")
    case True
    then have ee: "e = floorlog2 a" unfolding e_def by simp
    have "(2::rat) powi (e - 52) \<le> 2 powi e" by (intro power_int_increasing) auto
    also have "\<dots> \<le> a" unfolding ee by (rule floorlog2_lower[OF apos])
    finally show ?thesis by (simp add: field_simps)
  next
    case False
    then have ee: "e = - 1022" unfolding e_def by simp
    have "a = of_int \<bar>k\<bar> * 2 powi (- 1074)" unfolding a_def assms by (simp add: abs_mult)
    then have q: "a / 2 powi (e - 52) = of_int \<bar>k\<bar>" unfolding ee by simp
    have "k \<noteq> 0" using \<open>x \<noteq> 0\<close> assms by auto
    then have "1 \<le> \<bar>k\<bar>" by simp
    then have "(1::rat) \<le> of_int \<bar>k\<bar>" by (metis of_int_1_le_iff)
    then show ?thesis unfolding q .
  qed
  have "1 \<le> m" unfolding m_def by (rule roundHalfEven_pos[OF q1])
  then have "(1::rat) \<le> of_int m" by simp
  then have rpos: "0 < r" unfolding r_def using ulp by (simp add: zero_less_mult_iff)
  show ?thesis
  proof (cases "x < 0")
    case True
    then show ?thesis using rn rpos by (simp)
  next
    case False
    then have "0 < x" using \<open>x \<noteq> 0\<close> by simp
    then show ?thesis using rn rpos by simp
  qed
qed

lemma parseFloatText_representable:
  assumes "parseFloatText s = Fin y"
  shows "\<exists>k. y = of_int k * 2 powi (- 1074)"
  using assms unfolding parseFloatText_def Let_def
  by (auto split: if_splits dest: rnd_representable)

lemma ratingNumber_representable:
  assumes "ratingNumber r = Fin y"
  shows "\<exists>k. y = of_int k * 2 powi (- 1074)"
  using assms unfolding ratingNumber_def
  by (auto split: option.splits ratingValue.splits
      dest: rnd_representable parseFloatText_representable)

lemma byRating_after:
  assumes "finiteRating a" and "finiteRating b"
  shows "flt (Fin 0) (byRating a b) = (numericRating a < numericRating b)"
proof -
  obtain ra where ra: "ratingNumber (Title.rating a) = Fin ra"
    using assms(1) by (auto simp: finiteRating_def split: number.splits)
  obtain rb where rb: "ratingNumber (Title.rating b) = Fin rb"
    using assms(2) by (auto simp: finiteRating_def split: number.splits)
  obtain ka where ka: "ra = of_int ka * 2 powi (- 1074)"
    using ratingNumber_representable[OF ra] by blast
  obtain kb where kb: "rb = of_int kb * 2 powi (- 1074)"
    using ratingNumber_representable[OF rb] by blast
  have d: "rb + - ra = of_int (kb - ka) * 2 powi (- 1074)"
    unfolding ka kb by (simp add: algebra_simps)
  have "byRating a b = rnd (rb + - ra)"
    by (simp add: byRating_def fsub_def ra rb)
  then have "flt (Fin 0) (byRating a b) = (0 < rb + - ra)"
    using rnd_sign[OF d] by simp
  then show ?thesis by (simp add: numericRating_def ra rb)
qed

lemma insertBy_insort:
  assumes "finiteRating x" and "\<forall>y \<in> set ys. finiteRating y"
  shows "insertBy byRating x ys = insort_key (\<lambda>t. - numericRating t) x ys"
  using assms
proof (induction ys)
  case Nil
  then show ?case by simp
next
  case (Cons y ys)
  then show ?case using byRating_after[of x y] by auto
qed

lemma sortBy_sort_key:
  assumes "\<forall>x \<in> set xs. finiteRating x"
  shows "sortBy byRating xs = sort_key (\<lambda>t. - numericRating t) xs"
  using assms
proof (induction xs)
  case Nil
  then show ?case by (simp add: sortBy_def)
next
  case (Cons x xs)
  then have ih: "sortBy byRating xs = sort_key (\<lambda>t. - numericRating t) xs" by simp
  have "\<forall>y \<in> set (sort_key (\<lambda>t. - numericRating t) xs). finiteRating y"
    using Cons.prems by simp
  then have "insertBy byRating x (sort_key (\<lambda>t. - numericRating t) xs)
      = insort_key (\<lambda>t. - numericRating t) x (sort_key (\<lambda>t. - numericRating t) xs)"
    using Cons.prems by (intro insertBy_insort) auto
  then show ?case using ih by (simp add: sortBy_def)
qed

lemma mset_insertBy: "mset (insertBy cmp x ys) = add_mset x (mset ys)"
  by (induction ys) auto

lemma mset_sortBy: "mset (sortBy cmp xs) = mset xs"
  by (induction xs) (simp_all add: sortBy_def mset_insertBy)

lemma slice_prefix: "slice xs (Fin 0) (Fin (of_nat n)) = take n xs"
  using slice_of_nat[of xs 0 n] by simp

lemma slice_half:
  "slice xs (Fin 0) (Fin (of_nat l / 2)) = take (l div 2) xs"
proof -
  have "\<lfloor>(of_nat l :: rat) / 2\<rfloor> = int (l div 2)"
    by (metis floor_divide_of_nat_eq of_nat_numeral)
  then have "relativeIndex (length xs) (Fin (of_nat l / 2)) = min (l div 2) (length xs)"
    by (simp add: relativeIndex_def toIntegerOrInfinity_def)
  moreover have "relativeIndex (length xs) (Fin 0) = 0"
    by (simp add: relativeIndex_def toIntegerOrInfinity_def)
  ultimately show ?thesis by (simp add: slice_def min_def)
qed

lemma topRated_valid:
  assumes "l < 2 ^ 53"
  shows "topRated xs (Fin (of_nat l)) kind =
           map (\<lambda>m. withType m kind) (take (l div 2) (sortBy byRating xs))"
proof -
  have "fdiv (Fin (of_nat l)) (Fin 2) = rnd (of_int (int l) / 2)" by simp
  also have "\<dots> = Fin (of_int (int l) / 2)" using assms by (intro rnd_half) simp
  finally have "fdiv (Fin (of_nat l)) (Fin 2) = Fin (of_nat l / 2)" by simp
  then show ?thesis by (simp add: topRated_def slice_half)
qed

subsection \<open>Ratings of the sample data\<close>

lemma rnd_numeral_half:
  "(numeral n :: int) < 2 ^ 53 \<Longrightarrow> rnd (numeral n / 2) = Fin (numeral n / 2)"
  using rnd_half[of "numeral n"] by simp

lemmas float_eval = parseFloatText_def exponentPart_def trimStart_def isWhiteSpace_def isDigit_def
  digitsValue_def digitVal_def char_of_def bit_iff_odd power_int_def

lemma parseFloat_8_5: "parseFloatText ''8.5'' = Fin (17 / 2)"
  by (simp add: float_eval rnd_numeral_half)
lemma parseFloat_7_5: "parseFloatText ''7.5'' = Fin (15 / 2)"
  by (simp add: float_eval rnd_numeral_half)
lemma parseFloat_7: "parseFloatText ''7'' = Fin 7"
  by (simp add: float_eval rnd_numeral)
lemma parseFloat_8: "parseFloatText ''8'' = Fin 8"
  by (simp add: float_eval rnd_numeral)

lemma sampleMovies_finite: "\<forall>m \<in> set sampleMovies. finiteRating m"
  by (simp add: sampleMovies_def plainTitle_def finiteRating_def ratingNumber_def parseFloat_8_5 parseFloat_7_5 rnd_numeral)
lemma sampleSeries_finite: "\<forall>m \<in> set sampleSeries. finiteRating m"
  by (simp add: sampleSeries_def plainTitle_def finiteRating_def ratingNumber_def parseFloat_7 parseFloat_8 rnd_numeral_half)

subsection \<open>The trending answer\<close>

lemma sampleMovies_sorted:
  "sortBy byRating sampleMovies = [sampleMovies ! 1, sampleMovies ! 0, sampleMovies ! 2]"
  unfolding sortBy_sort_key[OF sampleMovies_finite]
  by (simp add: sampleMovies_def plainTitle_def numericRating_def ratingNumber_def
      parseFloat_8_5 parseFloat_7_5 rnd_numeral)

lemma sampleSeries_sorted:
  "sortBy byRating sampleSeries = [sampleSeries ! 2, sampleSeries ! 1, sampleSeries ! 0]"
  unfolding sortBy_sort_key[OF sampleSeries_finite]
  by (simp add: sampleSeries_def plainTitle_def numericRating_def ratingNumber_def
      parseFloat_7 parseFloat_8 rnd_numeral_half)

lemma rnd_minus_numeral:
  "(numeral n :: int) < 2 ^ 53 \<Longrightarrow> rnd (- numeral n) = Fin (- numeral n)"
  using rnd_of_int[of "- numeral n"] by simp

lemma rnd_minus_1: "rnd (- 1) = Fin (- 1)"
  using rnd_of_int[of "- 1"] by simp

text \<open>
  C9, as the code has it. The specification speaks of every limit. The handler passes
  \<open>parseInt(limit)\<close> to \<open>slice\<close> with no test, and \<open>slice\<close> counts a negative bound from the
  end of the array: with \<open>limit=-2\<close> each sorted collection of three loses its last record,
  the shuffled pool of four loses its last two, and two items are returned, which is more
  than the limit.
\<close>

theorem trending_negative_limit_counterexample:
  "queryNumber (minusTwoQuery ''limit'') 20 = Fin (- 2) \<and>
   fst (api_trending rev sampleStore minusTwoQuery) =
     ok (Trending [withType (sampleSeries ! 1) ''series'', withType (sampleSeries ! 2) ''series''])"
proof -
  have lim: "queryNumber (minusTwoQuery ''limit'') 20 = Fin (- 2)"
    by (simp add: minusTwoQuery_def queryNumber_def string_eval rnd_minus_numeral)
  have files: "readJSONFile sampleStore ''movies.json'' = sampleMovies"
    "readJSONFile sampleStore ''series.json'' = sampleSeries"
    by (simp_all add: readJSONFile_def sampleStore_def)
  have ty: "minusTwoQuery ''type'' = None" by (simp add: minusTwoQuery_def)
  show ?thesis
    by (simp add: lim api_trending_def trendingPool_def ty wantsTrending_def files topRated_def
        sampleMovies_sorted sampleSeries_sorted rnd_minus_1 slice_def relativeIndex_def
        toIntegerOrInfinity_def ceiling_def)
qed

text \<open>
  C9, amended. For every limit that is a natural number \<open>l\<close> (the parameter, or its default
  20, as \<open>parseInt\<close> reads it) and every outcome of the shuffle, with \<open>type\<close> absent or \<open>all\<close>,
  the trending endpoint returns at most \<open>l\<close> items, and the returned items form a
  sub-multiset of the pool, which is made of a prefix of the movies and a prefix of the
  series, each sorted by rating. For \<open>l\<close> below \<open>2^53\<close> each prefix has \<open>l div 2\<close> records
  (\<open>slice\<close> truncates \<open>limit / 2\<close>), and where all ratings of a collection are finite numbers
  these are its \<open>l div 2\<close> highest-rated records. The shuffle is any rearrangement of the
  pool, which is all that a sort with a random comparator does.
\<close>

theorem trending_within_top_rated:
  assumes lim: "queryNumber (q ''limit'') 20 = Fin (of_nat l)"
    and ty: "q ''type'' = None \<or> q ''type'' = Some ''all''"
    and sh: "\<forall>xs. mset (shuffle xs) = mset xs"
  shows "(let movies = readJSONFile fs ''movies.json'';
              series = readJSONFile fs ''series.json'';
              pool = topRated movies (Fin (of_nat l)) ''movie'' @
                     topRated series (Fin (of_nat l)) ''series'';
              items = take l (shuffle pool)
          in fst (api_trending shuffle fs q) = ok (Trending items) \<and>
             length items \<le> l \<and>
             mset items \<subseteq># mset pool \<and>
             set items \<subseteq> set pool \<and>
             (l < 2 ^ 53 \<longrightarrow>
                pool = map (\<lambda>m. withType m ''movie'') (take (l div 2) (sortBy byRating movies)) @
                       map (\<lambda>s. withType s ''series'') (take (l div 2) (sortBy byRating series))) \<and>
             ((\<forall>m \<in> set movies. finiteRating m) \<longrightarrow>
                take (l div 2) (sortBy byRating movies) = highestRated (l div 2) movies) \<and>
             ((\<forall>s \<in> set series. finiteRating s) \<longrightarrow>
                take (l div 2) (sortBy byRating series) = highestRated (l div 2) series))"
proof -
  define movies where "movies = readJSONFile fs ''movies.json''"
  define series where "series = readJSONFile fs ''series.json''"
  define pool where "pool = topRated movies (Fin (of_nat l)) ''movie'' @
                     topRated series (Fin (of_nat l)) ''series''"
  have w: "wantsTrending (q ''type'') ''movie''" "wantsTrending (q ''type'') ''series''"
    using ty by (auto simp: wantsTrending_def)
  have p: "fst (trendingPool fs q) = pool"
    using w by (simp add: trendingPool_def lim Let_def pool_def movies_def series_def)
  have r: "fst (api_trending shuffle fs q) = ok (Trending (take l (shuffle pool)))"
    using p by (cases "trendingPool fs q") (simp add: api_trending_def lim slice_prefix)
  have "mset (take l (shuffle pool)) \<subseteq># mset (shuffle pool)"
    by (metis append_take_drop_id mset_append mset_subset_eq_add_left)
  then have sub: "mset (take l (shuffle pool)) \<subseteq># mset pool"
    using sh by simp
  have mem: "set (take l (shuffle pool)) \<subseteq> set pool"
    using sub by (metis set_mset_mono set_mset_mset)
  have exact: "l < 2 ^ 53 \<longrightarrow>
      pool = map (\<lambda>m. withType m ''movie'') (take (l div 2) (sortBy byRating movies)) @
             map (\<lambda>s. withType s ''series'') (take (l div 2) (sortBy byRating series))"
    by (simp add: pool_def topRated_valid)
  show ?thesis
    using r sub mem exact
    unfolding Let_def movies_def[symmetric] series_def[symmetric] pool_def[symmetric]
    by (simp add: highestRated_def sortBy_sort_key)
qed

theorem trending_within_top_rated_witness:
  "queryNumber (limitTwoQuery ''limit'') 20 = Fin (of_nat 2) \<and> (2::nat) < 2 ^ 53 \<and>
   (limitTwoQuery ''type'' = None \<or> limitTwoQuery ''type'' = Some ''all'') \<and>
   (\<forall>xs :: Item list. mset (rev xs) = mset xs) \<and>
   list_all finiteRating sampleMovies \<and> list_all finiteRating sampleSeries \<and>
   fst (api_trending rev sampleStore limitTwoQuery) =
     ok (Trending [withType (sampleSeries ! 2) ''series'', withType (sampleMovies ! 1) ''movie''])"
proof -
  have lim: "queryNumber (limitTwoQuery ''limit'') 20 = Fin (of_nat 2)"
    by (simp add: limitTwoQuery_def queryNumber_def string_eval rnd_numeral)
  have small: "(2::nat) < 2 ^ 53" by simp
  have ty: "limitTwoQuery ''type'' = None \<or> limitTwoQuery ''type'' = Some ''all''"
    by (simp add: limitTwoQuery_def)
  have sh: "\<forall>xs :: Item list. mset (rev xs) = mset xs" by simp
  have files: "readJSONFile sampleStore ''movies.json'' = sampleMovies"
    "readJSONFile sampleStore ''series.json'' = sampleSeries"
    by (simp_all add: readJSONFile_def sampleStore_def)
  have tm: "topRated sampleMovies (Fin 2) ''movie'' = [withType (sampleMovies ! Suc 0) ''movie'']"
    using topRated_valid[of 2 sampleMovies "''movie''"] by (simp add: sampleMovies_sorted)
  have ts: "topRated sampleSeries (Fin 2) ''series'' = [withType (sampleSeries ! 2) ''series'']"
    using topRated_valid[of 2 sampleSeries "''series''"] by (simp add: sampleSeries_sorted)
  from trending_within_top_rated
    [where q = limitTwoQuery and l = 2 and shuffle = rev and fs = sampleStore, OF lim ty sh]
  show ?thesis
    using lim ty sampleMovies_finite sampleSeries_finite
    by (simp add: Let_def files tm ts list_all_iff)
qed

section \<open>Average ratings\<close>





subsection \<open>Decimal digits\<close>

declare decimalDigits.simps [simp del]












subsection \<open>Reading decimal text\<close>









subsection \<open>Printing one decimal\<close>










subsection \<open>The error of one rounding\<close>






subsection \<open>Averages of natural ratings\<close>











subsection \<open>The averages of \<open>/api/stats\<close>\<close>



end
